theory Spec2Isabelle
  imports Main "HOL-Library.AList" "HOL-Library.Sublist"
begin

section \<open>Python values, exceptions and the plugin object\<close>

text \<open>
  The plugin of \<^verbatim>\<open>mkdocs_macros/plugin.py\<close> is one Python object, \<^verbatim>\<open>MacrosPlugin\<close>,
  whose methods are called by the host in turn.  A method becomes a function that takes
  the object and returns either the exception it raises (\<open>Inl\<close>) or its result, with the
  updated object where the method mutates it.

  A callable is known by its identity and by its \<^verbatim>\<open>__name__\<close>, which a function
  has and an arbitrary callable object (a \<^verbatim>\<open>functools.partial\<close>, say) has not.
\<close>

datatype callable = Callable (ident: nat) (dunder_name: "string option")

text \<open>
  The values that variables, metadata and configuration hold.  A dictionary is an
  association list in insertion order, its keys distinct; \<open>PObj\<close> is an object with
  attributes (a page of the host).
\<close>

datatype pyval =
    PNone
  | PBool bool
  | PInt int
  | PStr string
  | PList "pyval list"
  | PDict "(string \<times> pyval) list"
  | PFunc callable
  | PObj "(string \<times> pyval) list"

type_synonym pydict = "(string \<times> pyval) list"

text \<open>
  The exceptions the plugin raises or meets.  \<open>SystemExit\<close> is what \<^verbatim>\<open>exit(code)\<close>
  raises; it is not an \<^verbatim>\<open>Exception\<close>, so \<^verbatim>\<open>except Exception\<close> lets it through.
  \<open>OtherException\<close> stands for any other exception, with its message.
\<close>

datatype error =
    AttributeError
  | KeyError
  | TypeError
  | ValueError
  | NameError
  | ImportError
  | ModuleNotFoundError
  | FileNotFoundError
  | AssertionError
  | SystemExit nat
  | OtherException string

fun is_Exception :: "error \<Rightarrow> bool" where
  "is_Exception (SystemExit code) = False"
| "is_Exception e = True"

definition bindE :: "error + 'a \<Rightarrow> ('a \<Rightarrow> error + 'b) \<Rightarrow> error + 'b" where
  "bindE m f = (case m of Inl e \<Rightarrow> Inl e | Inr x \<Rightarrow> f x)"

subsection \<open>Operations of Python on values\<close>

text \<open>Truth value testing, as \<^verbatim>\<open>if x:\<close> and \<^verbatim>\<open>x or y\<close> do it.\<close>

fun truthy :: "pyval \<Rightarrow> bool" where
  "truthy PNone = False"
| "truthy (PBool b) = b"
| "truthy (PInt i) = (i \<noteq> 0)"
| "truthy (PStr s) = (s \<noteq> [])"
| "truthy (PList xs) = (xs \<noteq> [])"
| "truthy (PDict d) = (d \<noteq> [])"
| "truthy (PFunc f) = True"
| "truthy (PObj a) = True"

text \<open>
  \<^verbatim>\<open>x == True\<close> and \<^verbatim>\<open>x == False\<close>: a bool equals itself, and \<^verbatim>\<open>bool\<close> being a
  subclass of \<^verbatim>\<open>int\<close>, \<open>1\<close> equals \<^verbatim>\<open>True\<close> and \<open>0\<close> equals \<^verbatim>\<open>False\<close>.  Nothing else
  of these values does.
\<close>

fun eq_bool :: "pyval \<Rightarrow> bool \<Rightarrow> bool" where
  "eq_bool (PBool c) b = (c = b)"
| "eq_bool (PInt i) b = (i = (if b then 1 else 0))"
| "eq_bool v b = False"

text \<open>Attribute access \<^verbatim>\<open>obj.name\<close>.\<close>

fun getattr :: "pyval \<Rightarrow> string \<Rightarrow> error + pyval" where
  "getattr (PObj a) n = (case map_of a n of Some v \<Rightarrow> Inr v | None \<Rightarrow> Inl AttributeError)"
| "getattr v n = Inl AttributeError"

text \<open>Attribute assignment \<^verbatim>\<open>obj.name = v\<close> on an object of the host.\<close>

fun setattr :: "pyval \<Rightarrow> string \<Rightarrow> pyval \<Rightarrow> error + pyval" where
  "setattr (PObj a) n v = Inr (PObj (AList.update n v a))"
| "setattr x n v = Inl AttributeError"

text \<open>\<^verbatim>\<open>d.get(key)\<close>: the value, or \<^verbatim>\<open>None\<close>; only a dictionary has the method.\<close>

fun dict_get :: "pyval \<Rightarrow> string \<Rightarrow> error + pyval" where
  "dict_get (PDict d) k = Inr (case map_of d k of Some v \<Rightarrow> v | None \<Rightarrow> PNone)"
| "dict_get v k = Inl AttributeError"

text \<open>
  \<^verbatim>\<open>d.update(other)\<close> of the built-in dictionary: every entry of \<open>other\<close> is
  assigned at the top level, in order.  An existing key keeps its place, a new one goes
  to the end, which is what \<open>AList.update\<close> does.
\<close>

definition update_items :: "pydict \<Rightarrow> pydict \<Rightarrow> pydict" where
  "update_items d other = fold (\<lambda>(k, v). AList.update k v) other d"

text \<open>
  The argument of \<^verbatim>\<open>d.update\<close> may be any value: a dictionary is merged, an empty
  sequence changes nothing, and the values that are not iterable raise.  (A non-empty
  list or string never reaches the call in \<open>render\<close>: it is true, and its \<^verbatim>\<open>.get\<close>
  has raised before.)
\<close>

fun dict_update :: "pydict \<Rightarrow> pyval \<Rightarrow> error + pydict" where
  "dict_update d (PDict other) = Inr (update_items d other)"
| "dict_update d (PList []) = Inr d"
| "dict_update d (PStr []) = Inr d"
| "dict_update d v = Inl TypeError"

subsection \<open>Configuration of the plugin\<close>

text \<open>The constants of the module.\<close>

definition YAML_VARIABLES :: string where
  "YAML_VARIABLES = ''extra''"

definition DEFAULT_MODULE_NAME :: string where
  "DEFAULT_MODULE_NAME = ''main''"

datatype undefined_class = DebugUndefined | Undefined | StrictUndefined | LaxUndefined

definition UNDEFINED_BEHAVIOR :: "(string \<times> undefined_class) list" where
  "UNDEFINED_BEHAVIOR =
     [(''keep'', DebugUndefined),
      (''silent'', Undefined),
      (''strict'', StrictUndefined),
      (''lax'', LaxUndefined)]"

definition DEFAULT_UNDEFINED_BEHAVIOR :: string where
  "DEFAULT_UNDEFINED_BEHAVIOR = ''keep''"

definition ERROR_MACRO :: nat where
  "ERROR_MACRO = 100"

text \<open>
  \<^verbatim>\<open>self.config\<close>: the options of \<^verbatim>\<open>config_scheme\<close>, which the host has validated
  against their declared types.
\<close>

record plugin_config =
  "module_name" :: string
  modules :: "string list"
  render_by_default :: bool
  include_dir :: string
  include_yaml :: "pyval list"
  j2_block_start_string :: string
  j2_block_end_string :: string
  j2_variable_start_string :: string
  j2_variable_end_string :: string
  on_undefined :: string
  on_error_fail :: bool
  verbose :: bool

text \<open>The defaults of \<^verbatim>\<open>config_scheme\<close>.\<close>

definition default_config :: plugin_config where
  "default_config =
     \<lparr> module_name = DEFAULT_MODULE_NAME, modules = [], render_by_default = True,
       include_dir = [], include_yaml = [],
       j2_block_start_string = [], j2_block_end_string = [],
       j2_variable_start_string = [], j2_variable_end_string = [],
       on_undefined = DEFAULT_UNDEFINED_BEHAVIOR, on_error_fail = False, verbose = False \<rparr>"

text \<open>
  The template environment that \<open>on_config\<close> builds (\<^verbatim>\<open>jinja2.Environment\<close>): the
  directory of its loader, the class of undefined values, the markers that were
  overridden, its globals and its filters.
\<close>

record jinja_env =
  loader :: string
  undefined_cls :: undefined_class
  markers :: "(string \<times> string) list"
  globals :: pydict
  env_filters :: pydict

text \<open>
  The plugin object.  An attribute that a method creates (\<^verbatim>\<open>self._variables\<close>, ...)
  is \<open>None\<close> until it is assigned: reading it then raises \<^verbatim>\<open>AttributeError\<close>.
\<close>

record macros_plugin =
  config :: plugin_config
  priv_conf :: "pydict option"
  priv_variables :: "pydict option"
  priv_macros :: "pydict option"
  priv_filters :: "pydict option"
  priv_page :: "pyval option"
  priv_markdown :: "string option"
  priv_pre_macro_functions :: "callable list option"
  priv_post_macro_functions :: "callable list option"
  priv_post_build_functions :: "callable list option"
  env :: "jinja_env option"

text \<open>The object as the host creates it, before any event.\<close>

definition new_plugin :: "plugin_config \<Rightarrow> macros_plugin" where
  "new_plugin c =
     \<lparr> config = c, priv_conf = None, priv_variables = None, priv_macros = None,
       priv_filters = None, priv_page = None, priv_markdown = None,
       priv_pre_macro_functions = None, priv_post_macro_functions = None,
       priv_post_build_functions = None, env = None \<rparr>"

section \<open>Properties of the plugin object\<close>

definition attribute :: "'a option \<Rightarrow> error + 'a" where
  "attribute a = (case a of Some v \<Rightarrow> Inr v | None \<Rightarrow> Inl AttributeError)"

definition conf :: "macros_plugin \<Rightarrow> error + pydict" where
  "conf self = attribute (priv_conf self)"

definition variables :: "macros_plugin \<Rightarrow> error + pydict" where
  "variables self = attribute (priv_variables self)"

definition macros :: "macros_plugin \<Rightarrow> error + pydict" where
  "macros self = attribute (priv_macros self)"

text \<open>
  \<open>filters\<close> catches the \<^verbatim>\<open>AttributeError\<close>: it assigns the empty dictionary and
  returns it.  It has no way to raise, so its result is a plain pair.
\<close>

definition filters :: "macros_plugin \<Rightarrow> pydict \<times> macros_plugin" where
  "filters self =
     (case priv_filters self of
        Some f \<Rightarrow> (f, self)
      | None \<Rightarrow> ([], self\<lparr>priv_filters := Some []\<rparr>))"

definition page :: "macros_plugin \<Rightarrow> error + pyval" where
  "page self = attribute (priv_page self)"

definition markdown :: "macros_plugin \<Rightarrow> error + string" where
  "markdown self = attribute (priv_markdown self)"

text \<open>The setter of \<open>markdown\<close>: a string only, and only once the attribute exists.\<close>

fun set_markdown :: "macros_plugin \<Rightarrow> pyval \<Rightarrow> error + macros_plugin" where
  "set_markdown self (PStr v) =
     bindE (markdown self) (\<lambda>old. Inr (self\<lparr>priv_markdown := Some v\<rparr>))"
| "set_markdown self v = Inl ValueError"

definition pre_macro_functions :: "macros_plugin \<Rightarrow> error + callable list" where
  "pre_macro_functions self = attribute (priv_pre_macro_functions self)"

definition post_macro_functions :: "macros_plugin \<Rightarrow> error + callable list" where
  "post_macro_functions self = attribute (priv_post_macro_functions self)"

definition post_build_functions :: "macros_plugin \<Rightarrow> error + callable list" where
  "post_build_functions self = attribute (priv_post_build_functions self)"

section \<open>Registration of macros and filters\<close>

text \<open>
  \<^verbatim>\<open>name = name or v.__name__\<close>: the default of \<open>name\<close> is the empty string, which is
  false, so the empty name and no name are the same call.
\<close>

definition name_or :: "string \<Rightarrow> callable \<Rightarrow> error + string" where
  "name_or name v =
     (if name \<noteq> [] then Inr name
      else case dunder_name v of Some n \<Rightarrow> Inr n | None \<Rightarrow> Inl AttributeError)"

definition macro :: "macros_plugin \<Rightarrow> callable \<Rightarrow> string \<Rightarrow> error + callable \<times> macros_plugin" where
  "macro self v name =
     bindE (name_or name v) (\<lambda>name.
     bindE (macros self) (\<lambda>m.
       Inr (v, self\<lparr>priv_macros := Some (AList.update name (PFunc v) m)\<rparr>)))"

definition filter' :: "macros_plugin \<Rightarrow> callable \<Rightarrow> string \<Rightarrow> error + callable \<times> macros_plugin" where
  "filter' self v name =
     bindE (name_or name v) (\<lambda>name.
       (case filters self of (f, self) \<Rightarrow>
          Inr (v, self\<lparr>priv_filters := Some (AList.update name (PFunc v) f)\<rparr>)))"

section \<open>What lies outside the plugin\<close>

text \<open>
  A module of extension code, as \<open>hasattr\<close> sees it: the two registration functions
  and the three optional functions, each present or not.
\<close>

record pymodule =
  m_define_env :: "callable option"
  m_declare_variables :: "callable option"
  m_on_pre_page_macros :: "callable option"
  m_on_post_page_macros :: "callable option"
  m_on_post_build :: "callable option"

text \<open>
  The code that the plugin calls and that is not its own: extension code, the import
  system, the file system, the YAML loader and the template engine.  Each is a parameter.
  \<^item> \<open>call\<close> is \<^verbatim>\<open>f(self)\<close>: what a registration function or a hook does to the plugin
    object, or the exception it raises;
  \<^item> \<open>call_declare_variables\<close> is \<^verbatim>\<open>f(self.variables, self.macro)\<close>;
  \<open>context_define_env\<close> is \<^verbatim>\<open>define_env\<close> of \<^verbatim>\<open>mkdocs_macros.context\<close>;
  \<^item> \<open>import_module\<close> is \<^verbatim>\<open>importlib.import_module\<close>; \<open>install_import\<close> is
    \<^verbatim>\<open>install_package(source)\<close> followed by the second import;
    \<open>import_local_module\<close> gives \<open>None\<close> when the project has no such module;
  \<^item> \<open>yaml_file\<close> gives \<open>None\<close> for a path that is not a file, else what
    \<^verbatim>\<open>yaml.load\<close> returns or raises;
  \<^item> \<open>environment_error\<close> is what \<^verbatim>\<open>Environment(**env_config)\<close> raises, if it raises,
    for a loader directory, a class of undefined values and markers; \<open>default_globals\<close>
    and \<open>default_filters\<close> are what a new environment holds;
  \<^item> \<open>template_render\<close> is \<^verbatim>\<open>env.from_string(markdown).render(**variables)\<close>;
  \<^item> \<open>error_description\<close> is how an exception describes itself and
    \<open>document_identity\<close> how the host names a page.
\<close>

record world =
  call :: "callable \<Rightarrow> macros_plugin \<Rightarrow> error + macros_plugin"
  call_declare_variables :: "callable \<Rightarrow> macros_plugin \<Rightarrow> error + macros_plugin"
  context_define_env :: "macros_plugin \<Rightarrow> error + macros_plugin"
  parse_package :: "string \<Rightarrow> string \<times> string"
  import_module :: "string \<Rightarrow> error + pymodule"
  install_import :: "string \<Rightarrow> string \<Rightarrow> error + pymodule"
  import_local_module :: "string \<Rightarrow> string \<Rightarrow> error + pymodule option"
  dirname_abspath :: "string \<Rightarrow> string"
  path_join :: "string \<Rightarrow> string \<Rightarrow> string"
  yaml_file :: "string \<Rightarrow> (error + pyval) option"
  isdir :: "string \<Rightarrow> bool"
  template_render :: "jinja_env \<Rightarrow> pyval \<Rightarrow> pydict \<Rightarrow> error + string"
  environment_error :: "string \<Rightarrow> undefined_class \<Rightarrow> (string \<times> string) list \<Rightarrow> error option"
  default_globals :: pydict
  default_filters :: pydict
  error_description :: "error \<Rightarrow> string"
  document_identity :: "pyval \<Rightarrow> string"

text \<open>A \<^verbatim>\<open>for\<close> loop whose body may raise: the first exception ends it.\<close>

fun for_each :: "('a \<Rightarrow> 's \<Rightarrow> error + 's) \<Rightarrow> 'a list \<Rightarrow> 's \<Rightarrow> error + 's" where
  "for_each f [] s = Inr s"
| "for_each f (x # xs) s = bindE (f x s) (for_each f xs)"

definition project_dir :: "world \<Rightarrow> macros_plugin \<Rightarrow> error + string" where
  "project_dir w self =
     bindE (conf self) (\<lambda>c.
       case map_of c ''config_file_path'' of
         None \<Rightarrow> Inl KeyError
       | Some (PStr CONFIG_FILE) \<Rightarrow> Inr (dirname_abspath w CONFIG_FILE)
       | Some v \<Rightarrow> Inl TypeError)"

section \<open>Deep merge of variables\<close>

text \<open>
  Modelled from the spec: \<^verbatim>\<open>update\<close> of \<^verbatim>\<open>mkdocs_macros/util.py\<close>, which
  \<open>_load_yaml\<close> calls and which is not among the sources.  The spec has it combine two
  stores so that for any key present as a nested mapping in both, the merge recurses;
  for any other key, the later (right-hand) value overwrites the earlier.  The entries of
  the right-hand store are taken one after the other, as the loop of a dictionary
  method would.
\<close>

function update :: "pydict \<Rightarrow> pydict \<Rightarrow> pydict" where
  "update d1 [] = d1"
| "update d1 ((key, v) # d2) =
     update
       (AList.update key
          (case (map_of d1 key, v) of
             (Some (PDict a), PDict b) \<Rightarrow> PDict (update a b)
           | _ \<Rightarrow> v)
          d1)
       d2"
  by pat_completeness auto
termination
  by (relation "measure (\<lambda>(d1, d2). size_list (size_prod (\<lambda>k. 0) size) d2)") auto

section \<open>Loading the YAML files and the modules\<close>

text \<open>
  One entry of \<^verbatim>\<open>include_yaml\<close>: a file name, or a dictionary of one entry, key and
  file name.  The unpacking \<^verbatim>\<open>[[key, filename]] = el.items()\<close> raises
  \<^verbatim>\<open>ValueError\<close> on a dictionary of another size, and the \<^verbatim>\<open>AttributeError\<close> of a
  value without \<^verbatim>\<open>items\<close> is caught.  The merge is between mappings: for a file
  with no key whose content is not a mapping, an exception stands for whatever the
  absent \<open>update\<close> raises.
\<close>

definition load_yaml_entry :: "world \<Rightarrow> pyval \<Rightarrow> macros_plugin \<Rightarrow> error + macros_plugin" where
  "load_yaml_entry w el self =
     bindE (case el of
              PDict [(key, filename)] \<Rightarrow> Inr (Some key, filename)
            | PDict items \<Rightarrow> Inl ValueError
            | other \<Rightarrow> Inr (None, el)) (\<lambda>(key, filename).
     bindE (project_dir w self) (\<lambda>dir.
     bindE (case filename of PStr f \<Rightarrow> Inr (path_join w dir f) | other \<Rightarrow> Inl TypeError)
       (\<lambda>filename.
     case yaml_file w filename of
       None \<Rightarrow> Inr self
     | Some loaded \<Rightarrow>
         bindE loaded (\<lambda>content.
         bindE (case key of
                  Some k \<Rightarrow> Inr [(k, content)]
                | None \<Rightarrow> (case content of PDict d \<Rightarrow> Inr d | other \<Rightarrow> Inl AttributeError))
           (\<lambda>content.
         bindE (variables self) (\<lambda>vars.
           Inr (self\<lparr>priv_variables := Some (update vars content)\<rparr>)))))))"

definition load_yaml :: "world \<Rightarrow> macros_plugin \<Rightarrow> error + macros_plugin" where
  "load_yaml w self = for_each (load_yaml_entry w) (include_yaml (config self)) self"

text \<open>\<^verbatim>\<open>add_function\<close>: the optional function, if the module has it, goes to the end.\<close>

definition add_function :: "callable option \<Rightarrow> callable list \<Rightarrow> callable list" where
  "add_function func funclist = (case func of Some f \<Rightarrow> funclist @ [f] | None \<Rightarrow> funclist)"

text \<open>
  \<open>_load_module\<close>.  A module that is \<open>None\<close> is passed over.  The first \<^verbatim>\<open>trace\<close>
  reads \<open>project_dir\<close>; both registration functions run when both are there.
\<close>

definition load_module ::
  "world \<Rightarrow> macros_plugin \<Rightarrow> pymodule option \<Rightarrow> string \<Rightarrow> error + macros_plugin" where
  "load_module w self module name =
     (case module of
        None \<Rightarrow> Inr self
      | Some m \<Rightarrow>
          bindE (project_dir w self) (\<lambda>dir.
          bindE (case m_define_env m of
                   Some f \<Rightarrow> bindE (call w f self) (\<lambda>self. Inr (self, True))
                 | None \<Rightarrow> Inr (self, False)) (\<lambda>(self, function_found).
          bindE (case m_declare_variables m of
                   Some f \<Rightarrow>
                     bindE (variables self) (\<lambda>vars.
                     bindE (call_declare_variables w f self) (\<lambda>self. Inr (self, True)))
                 | None \<Rightarrow> Inr (self, function_found)) (\<lambda>(self, function_found).
          if \<not> function_found then Inl NameError
          else
            bindE (pre_macro_functions self) (\<lambda>funclist.
            let self = self\<lparr>priv_pre_macro_functions :=
                         Some (add_function (m_on_pre_page_macros m) funclist)\<rparr> in
            bindE (post_macro_functions self) (\<lambda>funclist.
            let self = self\<lparr>priv_post_macro_functions :=
                         Some (add_function (m_on_post_page_macros m) funclist)\<rparr> in
            bindE (post_build_functions self) (\<lambda>funclist.
              Inr (self\<lparr>priv_post_build_functions :=
                         Some (add_function (m_on_post_build m) funclist)\<rparr>))))))))"

text \<open>
  One pass of the loop over \<^verbatim>\<open>modules\<close>: import, and on \<^verbatim>\<open>ModuleNotFoundError\<close>
  install and import once more; a \<^verbatim>\<open>NameError\<close> or \<^verbatim>\<open>ModuleNotFoundError\<close> of
  that second try becomes \<^verbatim>\<open>ModuleNotFoundError\<close>.
\<close>

definition load_named_module :: "world \<Rightarrow> string \<Rightarrow> macros_plugin \<Rightarrow> error + macros_plugin" where
  "load_named_module w m self =
     (case parse_package w m of (source_name, mname) \<Rightarrow>
        bindE (case import_module w mname of
                 Inl ModuleNotFoundError \<Rightarrow>
                   (case install_import w source_name mname of
                      Inl NameError \<Rightarrow> Inl ModuleNotFoundError
                    | Inl ModuleNotFoundError \<Rightarrow> Inl ModuleNotFoundError
                    | other \<Rightarrow> other)
               | other \<Rightarrow> other) (\<lambda>module.
        load_module w self (Some module) mname))"

text \<open>The local module of \<open>_load_modules\<close>, once the named ones are loaded.\<close>

definition load_local_module :: "world \<Rightarrow> macros_plugin \<Rightarrow> error + macros_plugin" where
  "load_local_module w self =
     (let local_module_name = module_name (config self) in
      bindE (project_dir w self) (\<lambda>dir.
      bindE (import_local_module w dir local_module_name) (\<lambda>module.
        case module of
          Some m \<Rightarrow> load_module w self (Some m) local_module_name
        | None \<Rightarrow>
            if local_module_name = DEFAULT_MODULE_NAME then Inr self
            else Inl ImportError)))"

definition load_modules :: "world \<Rightarrow> macros_plugin \<Rightarrow> error + macros_plugin" where
  "load_modules w self =
     (let self = self\<lparr>priv_pre_macro_functions := Some [],
                     priv_post_macro_functions := Some [],
                     priv_post_build_functions := Some []\<rparr> in
      bindE (for_each (load_named_module w) (modules (config self)) self)
        (load_local_module w))"

section \<open>Rendering a page\<close>

text \<open>The text of a value that is a string.\<close>

fun text_of :: "pyval \<Rightarrow> string" where
  "text_of (PStr s) = s"
| "text_of v = []"

text \<open>
  Modelled from the spec: \<^verbatim>\<open>format_error\<close> of \<^verbatim>\<open>mkdocs_macros/errors.py\<close>, which
  \<open>render\<close> calls and which is not among the sources.  The spec has it construct a
  diagnostic from the error description, the originating document text and this
  document's identity, a text distinct from the raw input: the heading sees to that.
\<close>

definition format_error :: "world \<Rightarrow> error \<Rightarrow> pyval \<Rightarrow> pyval \<Rightarrow> string" where
  "format_error w error md pg =
     ''Macro Rendering Error; file: '' @ document_identity w pg
       @ ''; error: '' @ error_description w error
       @ ''; text: '' @ text_of md"

text \<open>
  The metadata of the page, \<^verbatim>\<open>self.variables['page'].meta\<close>; the \<^verbatim>\<open>KeyError\<close> of
  a store with no page yet is caught and gives the empty dictionary.
\<close>

definition meta_variables :: "macros_plugin \<Rightarrow> error + pyval" where
  "meta_variables self =
     bindE (variables self) (\<lambda>vars.
       case map_of vars ''page'' of
         None \<Rightarrow> Inr (PDict [])
       | Some p \<Rightarrow> getattr p ''meta'')"

text \<open>
  The two flags, \<^verbatim>\<open>ignore_macros\<close> and \<^verbatim>\<open>render_macros\<close>: \<^verbatim>\<open>None\<close>, unless the
  metadata is true and says otherwise.
\<close>

definition macro_flags :: "pyval \<Rightarrow> error + pyval \<times> pyval" where
  "macro_flags meta =
     (if truthy meta then
        bindE (dict_get meta ''ignore_macros'') (\<lambda>ignore_macros.
        bindE (dict_get meta ''render_macros'') (\<lambda>render_macros.
          Inr (ignore_macros, render_macros)))
      else Inr (PNone, PNone))"

definition opt_out :: "pyval \<Rightarrow> pyval \<Rightarrow> bool" where
  "opt_out ignore_macros render_macros \<longleftrightarrow>
     eq_bool ignore_macros True \<or> eq_bool render_macros False"

definition opt_in :: "pyval \<Rightarrow> pyval \<Rightarrow> bool" where
  "opt_in ignore_macros render_macros \<longleftrightarrow>
     eq_bool render_macros True \<or> eq_bool ignore_macros False"

text \<open>
  The two early returns of \<open>render\<close>: under \<^verbatim>\<open>render_by_default\<close> the page is left
  alone if it opts out, otherwise if it does not opt in.
\<close>

definition skipped :: "bool \<Rightarrow> pyval \<Rightarrow> pyval \<Rightarrow> bool" where
  "skipped by_default ignore_macros render_macros \<longleftrightarrow>
     (if by_default then opt_out ignore_macros render_macros
      else \<not> opt_in ignore_macros render_macros)"

text \<open>
  The second half of \<open>render\<close>, for a page that is not left alone: the metadata goes
  over the copy of the variables, and the template is expanded.  Reading \<^verbatim>\<open>self.env\<close>
  is inside the \<^verbatim>\<open>try\<close>, so its \<^verbatim>\<open>AttributeError\<close> is handled as an error of the
  template is.  \<^verbatim>\<open>self.page\<close> is read in the handler, where nothing catches what it
  raises.
\<close>

definition expand :: "world \<Rightarrow> macros_plugin \<Rightarrow> pyval \<Rightarrow> pydict \<Rightarrow> pyval \<Rightarrow> error + pyval" where
  "expand w self md page_variables meta =
     bindE (dict_update page_variables meta) (\<lambda>page_variables.
       case (case env self of
               None \<Rightarrow> Inl AttributeError
             | Some e \<Rightarrow> template_render w e md page_variables) of
         Inr rendered \<Rightarrow> Inr (PStr rendered)
       | Inl error \<Rightarrow>
           if is_Exception error then
             bindE (page self) (\<lambda>pg.
               let error_message = format_error w error md pg in
               if on_error_fail (config self) then Inl (SystemExit ERROR_MACRO)
               else Inr (PStr error_message))
           else Inl error)"

text \<open>\<open>render\<close>: the copy of the variables, the metadata, the decision, the expansion.\<close>

definition render :: "world \<Rightarrow> macros_plugin \<Rightarrow> pyval \<Rightarrow> error + pyval" where
  "render w self md =
     bindE (variables self) (\<lambda>page_variables.
     bindE (meta_variables self) (\<lambda>meta.
     bindE (macro_flags meta) (\<lambda>(ignore_macros, render_macros).
       if skipped (render_by_default (config self)) ignore_macros render_macros
       then Inr md
       else expand w self md page_variables meta)))"

section \<open>The events of the host\<close>

text \<open>
  \<open>on_config\<close>, in its three parts.  First the variables: the stores are created,
  \<^verbatim>\<open>extra\<close> and a copy of the configuration go in, then the YAML files, the standard
  context, the entries of \<^verbatim>\<open>extra\<close> at the top level, and the modules last.  The
  configuration of the host is a dictionary; \<^verbatim>\<open>dict(config.get('extra'))\<close> wants a
  mapping there.
\<close>

definition on_config_variables ::
  "world \<Rightarrow> macros_plugin \<Rightarrow> pydict \<Rightarrow> error + macros_plugin" where
  "on_config_variables w self cfg =
     (let self = self\<lparr>priv_variables := Some [], priv_macros := Some []\<rparr> in
      bindE (case map_of cfg YAML_VARIABLES of
               Some (PDict d) \<Rightarrow> Inr d
             | other \<Rightarrow> Inl TypeError) (\<lambda>extra.
      bindE (variables self) (\<lambda>vars.
      let self = self\<lparr>priv_variables := Some (AList.update ''extra'' (PDict extra) vars)\<rparr>;
          self = self\<lparr>priv_conf := Some cfg\<rparr> in
      bindE (variables self) (\<lambda>vars.
      let self = self\<lparr>priv_variables := Some (AList.update ''config'' (PDict cfg) vars)\<rparr> in
      bindE (load_yaml w self) (\<lambda>self.
      bindE (context_define_env w self) (\<lambda>self.
      bindE (variables self) (\<lambda>vars.
      let self = self\<lparr>priv_variables := Some (update_items vars extra)\<rparr> in
      bindE (load_modules w self) (\<lambda>self.
      bindE (variables self) (\<lambda>vars. Inr self)))))))))"

text \<open>The class of undefined values: \<^verbatim>\<open>ValueError\<close> for a name that the table lacks.\<close>

definition undefined_behavior :: "string \<Rightarrow> error + undefined_class" where
  "undefined_behavior name =
     (case map_of UNDEFINED_BEHAVIOR name of
        None \<Rightarrow> Inl ValueError
      | Some cls \<Rightarrow> Inr cls)"

text \<open>
  The options whose key starts with \<^verbatim>\<open>j2_\<close> and whose value is not empty, under the
  key without the prefix, in the order of \<^verbatim>\<open>config_scheme\<close>.
\<close>

definition j2_markers :: "plugin_config \<Rightarrow> (string \<times> string) list" where
  "j2_markers c =
     filter (\<lambda>(variable_name, v). v \<noteq> [])
       [(''block_start_string'', j2_block_start_string c),
        (''block_end_string'', j2_block_end_string c),
        (''variable_start_string'', j2_variable_start_string c),
        (''variable_end_string'', j2_variable_end_string c)]"

text \<open>
  The include directory: the option, or else \<^verbatim>\<open>docs_dir\<close> of the host, and it must
  be a directory.  \<^verbatim>\<open>os.path.isdir\<close> of a value that is no path raises.
\<close>

definition include_directory :: "world \<Rightarrow> plugin_config \<Rightarrow> pydict \<Rightarrow> error + string" where
  "include_directory w c cfg =
     (let DOCS_DIR = (case map_of cfg ''docs_dir'' of Some d \<Rightarrow> d | None \<Rightarrow> PNone);
          dir = (if include_dir c \<noteq> [] then PStr (include_dir c) else DOCS_DIR) in
      case dir of
        PStr d \<Rightarrow> if isdir w d then Inr d else Inl FileNotFoundError
      | other \<Rightarrow> Inl TypeError)"

text \<open>
  Then the environment: the include directory must exist, the name of the undefined
  behaviour must be in the table, and the template engine must accept what it is given:
  \<^verbatim>\<open>Environment(**env_config)\<close> may raise.  \<^verbatim>\<open>if self.filters\<close> reads the
  property, which creates the filters when no module has.
\<close>

definition on_config_environment ::
  "world \<Rightarrow> macros_plugin \<Rightarrow> pydict \<Rightarrow> error + macros_plugin" where
  "on_config_environment w self cfg =
     (case filters self of (f, self) \<Rightarrow>
        bindE (include_directory w (config self) cfg) (\<lambda>dir.
        bindE (undefined_behavior (on_undefined (config self))) (\<lambda>cls.
          case environment_error w dir cls (j2_markers (config self)) of
            Some e \<Rightarrow> Inl e
          | None \<Rightarrow>
              Inr (self\<lparr>env := Some \<lparr> loader = dir, undefined_cls = cls,
                                      markers = j2_markers (config self),
                                      globals = default_globals w,
                                      env_filters = default_filters w \<rparr>\<rparr>))))"

text \<open>Last the macros and the filters: into the variables, and into the environment.\<close>

definition on_config_macros_filters :: "macros_plugin \<Rightarrow> error + macros_plugin" where
  "on_config_macros_filters self =
     bindE (macros self) (\<lambda>m.
     bindE (variables self) (\<lambda>vars.
     let self = self\<lparr>priv_variables := Some (AList.update ''macros'' (PDict m) vars)\<rparr> in
     bindE (attribute (env self)) (\<lambda>e.
     let self = self\<lparr>env := Some (e\<lparr>globals := update_items (globals e) m\<rparr>)\<rparr> in
     case filters self of (f, self) \<Rightarrow>
     bindE (variables self) (\<lambda>vars.
     let self = self\<lparr>priv_variables := Some (AList.update ''filters'' (PDict f) vars)\<rparr> in
     bindE (attribute (env self)) (\<lambda>e.
     bindE (variables self) (\<lambda>vars.
     let self = self\<lparr>priv_variables :=
                  Some (AList.update ''filters_builtin'' (PDict (env_filters e)) vars)\<rparr> in
     Inr (self\<lparr>env := Some (e\<lparr>env_filters := update_items (env_filters e) f\<rparr>)\<rparr>)))))))"

definition on_config :: "world \<Rightarrow> macros_plugin \<Rightarrow> pydict \<Rightarrow> error + macros_plugin" where
  "on_config w self cfg =
     bindE (on_config_variables w self cfg) (\<lambda>self.
     bindE (on_config_environment w self cfg) on_config_macros_filters)"

text \<open>
  \<^verbatim>\<open>page.title = self.render(page.title)\<close>.  The page is the object that
  \<open>on_page_markdown\<close> has just stored in \<^verbatim>\<open>self._page\<close>, and is read from there.
\<close>

definition render_title :: "world \<Rightarrow> macros_plugin \<Rightarrow> error + macros_plugin" where
  "render_title w self =
     bindE (page self) (\<lambda>pg.
     bindE (getattr pg ''title'') (\<lambda>title.
     bindE (render w self title) (\<lambda>title.
     bindE (setattr pg ''title'' title) (\<lambda>pg.
       Inr (self\<lparr>priv_page := Some pg\<rparr>)))))"

text \<open>
  \<open>on_page_markdown\<close>: the text it returns, and the plugin object as it leaves it.
  The functions of the modules run before and after \<open>render\<close>, whatever \<open>render\<close>
  decides.
\<close>

definition on_page_markdown ::
  "world \<Rightarrow> macros_plugin \<Rightarrow> string \<Rightarrow> pyval \<Rightarrow> error + string \<times> macros_plugin" where
  "on_page_markdown w self md pg =
     (let self = self\<lparr>priv_page := Some pg\<rparr> in
      bindE (variables self) (\<lambda>vars.
        if vars = [] then Inr (md, self)
        else
          let self = self\<lparr>priv_variables := Some (AList.update ''page'' pg vars)\<rparr>;
              self = self\<lparr>priv_markdown := Some md\<rparr> in
          bindE (pre_macro_functions self) (\<lambda>funcs.
          bindE (for_each (call w) funcs self) (\<lambda>self.
          bindE (markdown self) (\<lambda>md.
          bindE (render w self (PStr md)) (\<lambda>rendered.
          bindE (set_markdown self rendered) (\<lambda>self.
          bindE (render_title w self) (\<lambda>self.
          bindE (post_macro_functions self) (\<lambda>funcs.
          bindE (for_each (call w) funcs self) (\<lambda>self.
          bindE (markdown self) (\<lambda>md.
            Inr (md, self))))))))))))"

definition on_post_build :: "world \<Rightarrow> macros_plugin \<Rightarrow> error + macros_plugin" where
  "on_post_build w self =
     bindE (post_build_functions self) (\<lambda>funcs. for_each (call w) funcs self)"

text \<open>
  The events in the order in which the host sends them: \<open>on_config\<close>, "called once
  (initialization)", then \<open>on_page_markdown\<close> "for each page of the website", and
  \<open>on_post_build\<close> at the end.  A page is its text and its page object; the result is
  the texts of the pages.  An exception of any event ends the build there.
  (\<open>on_nav\<close> and \<open>on_serve\<close> are left out.)
\<close>

fun render_pages ::
  "world \<Rightarrow> (string \<times> pyval) list \<Rightarrow> macros_plugin \<Rightarrow> error + string list \<times> macros_plugin" where
  "render_pages w [] self = Inr ([], self)"
| "render_pages w ((md, pg) # pages) self =
     bindE (on_page_markdown w self md pg) (\<lambda>(out, self).
     bindE (render_pages w pages self) (\<lambda>(outs, self). Inr (out # outs, self)))"

definition build ::
  "world \<Rightarrow> macros_plugin \<Rightarrow> pydict \<Rightarrow> (string \<times> pyval) list \<Rightarrow> error + string list \<times> macros_plugin" where
  "build w self cfg pages =
     bindE (on_config w self cfg) (\<lambda>self.
     bindE (render_pages w pages self) (\<lambda>(outs, self).
     bindE (on_post_build w self) (\<lambda>self. Inr (outs, self))))"

section \<open>Copies and the objects they share\<close>

text \<open>
  \<^verbatim>\<open>copy\<close> is \<^verbatim>\<open>copy.copy\<close> of the standard library (\<^verbatim>\<open>from copy import copy\<close>): a
  new object with the entries of the old one.  The variables are a dictionary
  (\<^verbatim>\<open>SuperDict\<close>, "dictionaries, for update function to work") and so is the
  configuration of the host.  An entry that is
  a mapping is a reference, and the copy holds the same reference.  What that means for
  the store of variables needs the objects themselves: a store of objects by address,
  each a dictionary whose values are scalars or references.  An address is the index of
  an object that the store holds; the operations are meant for such addresses only,
  and the theorems about them say so.
\<close>

type_synonym addr = nat

datatype oval = ONone | OBool bool | OInt int | OStr string | ORef addr

type_synonym object = "(string \<times> oval) list"

type_synonym store = "object list"

text \<open>\<^verbatim>\<open>copy(x)\<close>: the address of the new object, and the store with it.\<close>

definition copy :: "store \<Rightarrow> addr \<Rightarrow> addr \<times> store" where
  "copy h a = (length h, h @ [h ! a])"

text \<open>\<^verbatim>\<open>d[key] = v\<close>, \<^verbatim>\<open>d[key]\<close> and \<^verbatim>\<open>d.update(other)\<close> on the object at an address.\<close>

definition setitem :: "store \<Rightarrow> addr \<Rightarrow> string \<Rightarrow> oval \<Rightarrow> store" where
  "setitem h a key v = h[a := AList.update key v (h ! a)]"

definition getitem :: "store \<Rightarrow> addr \<Rightarrow> string \<Rightarrow> oval option" where
  "getitem h a key = map_of (h ! a) key"

definition update_object :: "store \<Rightarrow> addr \<Rightarrow> object \<Rightarrow> store" where
  "update_object h a other = h[a := fold (\<lambda>(k, v). AList.update k v) other (h ! a)]"

text \<open>
  The variables of one page, as \<open>render\<close> makes them: \<^verbatim>\<open>copy(self.variables)\<close>, then
  \<^verbatim>\<open>page_variables.update(meta_variables)\<close>.
\<close>

definition page_variables :: "store \<Rightarrow> addr \<Rightarrow> object \<Rightarrow> addr \<times> store" where
  "page_variables h vars meta =
     (case copy h vars of (pv, h) \<Rightarrow> (pv, update_object h pv meta))"

text \<open>\<^verbatim>\<open>self.variables['config'] = copy(config)\<close> of \<open>on_config\<close>.\<close>

definition config_copy :: "store \<Rightarrow> addr \<Rightarrow> addr \<Rightarrow> store" where
  "config_copy h vars cfg =
     (case copy h cfg of (c, h) \<Rightarrow> setitem h vars ''config'' (ORef c))"

section \<open>A small world\<close>

text \<open>
  A world to run the plugin in: no module anywhere, every directory there, no YAML
  file, extension code that does nothing, and a template engine that gives the text
  back as it is.
\<close>

fun class_name :: "error \<Rightarrow> string" where
  "class_name AttributeError = ''AttributeError''"
| "class_name KeyError = ''KeyError''"
| "class_name TypeError = ''TypeError''"
| "class_name ValueError = ''ValueError''"
| "class_name NameError = ''NameError''"
| "class_name ImportError = ''ImportError''"
| "class_name ModuleNotFoundError = ''ModuleNotFoundError''"
| "class_name FileNotFoundError = ''FileNotFoundError''"
| "class_name AssertionError = ''AssertionError''"
| "class_name (SystemExit code) = ''SystemExit''"
| "class_name (OtherException msg) = msg"

definition src_path :: "pyval \<Rightarrow> string" where
  "src_path pg = (case getattr pg ''src_path'' of Inr (PStr s) \<Rightarrow> s | other \<Rightarrow> [])"

text \<open>
  The check that the template engine makes of its markers when an environment is
  created: the start of a block is not the start of a variable, and the start of a
  variable is not the start of a comment.  A marker that is not given is the engine's own.
\<close>

definition jinja_sanity :: "string \<Rightarrow> undefined_class \<Rightarrow> (string \<times> string) list \<Rightarrow> error option" where
  "jinja_sanity dir cls ms =
     (let block_start = (case map_of ms ''block_start_string'' of Some m \<Rightarrow> m | None \<Rightarrow> ''{%'');
          variable_start =
            (case map_of ms ''variable_start_string'' of Some m \<Rightarrow> m | None \<Rightarrow> ''{{'');
          comment_start = ''{#'' in
      if block_start \<noteq> variable_start \<and> variable_start \<noteq> comment_start then None
      else Some AssertionError)"

definition quiet_world :: world where
  "quiet_world =
     \<lparr> call = (\<lambda>f self. Inr self),
       call_declare_variables = (\<lambda>f self. Inr self),
       context_define_env = Inr,
       parse_package = (\<lambda>m. (m, m)),
       import_module = (\<lambda>m. Inl ModuleNotFoundError),
       install_import = (\<lambda>source m. Inl NameError),
       import_local_module = (\<lambda>dir m. Inr None),
       dirname_abspath = (\<lambda>path. ''/site''),
       path_join = (\<lambda>dir f. dir @ ''/'' @ f),
       yaml_file = (\<lambda>f. None),
       isdir = (\<lambda>d. True),
       template_render = (\<lambda>e md vars. Inr (text_of md)),
       environment_error = jinja_sanity,
       default_globals = [],
       default_filters = [],
       error_description = class_name,
       document_identity = src_path \<rparr>"

text \<open>The host's configuration, and a page with its metadata.\<close>

definition site_config :: pydict where
  "site_config =
     [(''config_file_path'', PStr ''/site/mkdocs.yml''),
      (''docs_dir'', PStr ''/site/docs''),
      (''extra'', PDict [(''site_name'', PStr ''Docs'')])]"

definition a_page :: "pydict \<Rightarrow> pyval" where
  "a_page meta =
     PObj [(''title'', PStr ''Home''), (''meta'', PDict meta), (''src_path'', PStr ''index.md'')]"

text \<open>
  A plugin as \<open>on_config\<close> leaves it, with given options and given functions for before
  and after the macros: the stores, the lists of functions and the environment are there.
\<close>

definition ready_plugin :: "plugin_config \<Rightarrow> callable list \<Rightarrow> callable list \<Rightarrow> macros_plugin" where
  "ready_plugin c pre post =
     \<lparr> config = c,
       priv_conf = Some site_config,
       priv_variables = Some [(''extra'', PDict [(''site_name'', PStr ''Docs'')]),
                              (''site_name'', PStr ''Docs'')],
       priv_macros = Some [],
       priv_filters = Some [],
       priv_page = None,
       priv_markdown = None,
       priv_pre_macro_functions = Some pre,
       priv_post_macro_functions = Some post,
       priv_post_build_functions = Some [],
       env = Some \<lparr> loader = ''/site/docs'', undefined_cls = DebugUndefined, markers = [],
                    globals = [], env_filters = [] \<rparr> \<rparr>"

text \<open>The plugin while it works on a page: the page is in the variables.\<close>

definition with_page :: "macros_plugin \<Rightarrow> pyval \<Rightarrow> macros_plugin" where
  "with_page self pg =
     self\<lparr>priv_page := Some pg,
          priv_variables := map_option (AList.update ''page'' pg) (priv_variables self)\<rparr>"

text \<open>
  A function of a module that rewrites the page: \<^verbatim>\<open>env.markdown = 'changed'\<close>, under
  the name \<^verbatim>\<open>on_pre_page_macros\<close> or \<^verbatim>\<open>on_post_page_macros\<close>.
\<close>

definition rewriting :: callable where
  "rewriting = Callable 1 (Some ''on_pre_page_macros'')"

definition rewriting_world :: world where
  "rewriting_world =
     quiet_world\<lparr>call := (\<lambda>f self. set_markdown self (PStr ''changed''))\<rparr>"

text \<open>A function that a module registers, \<^verbatim>\<open>def double(x)\<close>.\<close>

definition double :: callable where
  "double = Callable 7 (Some ''double'')"

text \<open>A template engine that fails on every text.\<close>

definition failing_world :: world where
  "failing_world =
     quiet_world\<lparr>template_render := (\<lambda>e md vars. Inl (OtherException ''UndefinedError''))\<rparr>"

text \<open>A module with two of the optional functions and no registration function.\<close>

definition hook_only :: pymodule where
  "hook_only =
     \<lparr> m_define_env = None, m_declare_variables = None,
       m_on_pre_page_macros = Some rewriting, m_on_post_page_macros = None,
       m_on_post_build = Some double \<rparr>"

text \<open>The small world with one YAML file in the project directory.\<close>

definition yaml_world :: world where
  "yaml_world =
     quiet_world\<lparr>yaml_file :=
       (\<lambda>f. if f = ''/site/more.yml''
            then Some (Inr (PDict [(''extra'', PDict [(''site_name'', PStr ''More'')]),
                                   (''site_name'', PInt 5)]))
            else None)\<rparr>"

text \<open>The plugin as the first part of \<open>on_config\<close> leaves it in the small world.\<close>

definition loaded_plugin :: "plugin_config \<Rightarrow> macros_plugin" where
  "loaded_plugin c =
     (new_plugin c)
       \<lparr>priv_conf := Some site_config,
        priv_variables := Some [(''extra'', PDict [(''site_name'', PStr ''Docs'')]),
                                (''config'', PDict site_config),
                                (''site_name'', PStr ''Docs'')],
        priv_macros := Some [],
        priv_pre_macro_functions := Some [],
        priv_post_macro_functions := Some [],
        priv_post_build_functions := Some []\<rparr>"

text \<open>
  The plugin when \<open>on_page_markdown\<close> has taken the page in and is about to call the
  functions of the modules: page, variables and text are set.
\<close>

definition started :: "macros_plugin \<Rightarrow> string \<Rightarrow> pyval \<Rightarrow> macros_plugin" where
  "started self md pg =
     self\<lparr>priv_page := Some pg,
          priv_variables := map_option (AList.update ''page'' pg) (priv_variables self),
          priv_markdown := Some md\<rparr>"

text \<open>
  What extension code may do with a mapping it reached through another:
  \<^verbatim>\<open>d[key][k]\<close> and \<^verbatim>\<open>d[key][k] = v\<close>.  A missing key raises \<^verbatim>\<open>KeyError\<close>, and a
  value that is no mapping cannot be subscripted.
\<close>

definition getitem2 :: "store \<Rightarrow> addr \<Rightarrow> string \<Rightarrow> string \<Rightarrow> error + oval" where
  "getitem2 h a key k =
     (case getitem h a key of
        None \<Rightarrow> Inl KeyError
      | Some (ORef n) \<Rightarrow> (case getitem h n k of None \<Rightarrow> Inl KeyError | Some v \<Rightarrow> Inr v)
      | Some other \<Rightarrow> Inl TypeError)"

definition setitem2 :: "store \<Rightarrow> addr \<Rightarrow> string \<Rightarrow> string \<Rightarrow> oval \<Rightarrow> error + store" where
  "setitem2 h a key k v =
     (case getitem h a key of
        None \<Rightarrow> Inl KeyError
      | Some (ORef n) \<Rightarrow> Inr (setitem h n k v)
      | Some other \<Rightarrow> Inl TypeError)"

text \<open>
  A store of objects: the variables at 0 with their \<^verbatim>\<open>extra\<close> at 1, the configuration
  of the host at 2 with its \<^verbatim>\<open>extra\<close> at 3 and its \<^verbatim>\<open>theme\<close> at 4.  Then the same
  store after an assignment in \<^verbatim>\<open>extra\<close> through the variables of a page, and after an
  assignment in \<^verbatim>\<open>theme\<close> through the copy of the configuration.
\<close>

definition example_store :: store where
  "example_store =
     [[(''extra'', ORef 1)],
      [(''site_name'', OStr ''Docs'')],
      [(''extra'', ORef 3), (''theme'', ORef 4)],
      [(''site_name'', OStr ''Docs'')],
      [(''name'', OStr ''mkdocs'')]]"

definition changed_store :: store where
  "changed_store =
     [[(''extra'', ORef 1)],
      [(''site_name'', OStr ''Changed'')],
      [(''extra'', ORef 3), (''theme'', ORef 4)],
      [(''site_name'', OStr ''Docs'')],
      [(''name'', OStr ''mkdocs'')],
      [(''extra'', ORef 1)]]"

definition retitled_store :: store where
  "retitled_store =
     [[(''extra'', ORef 1), (''config'', ORef 5)],
      [(''site_name'', OStr ''Docs'')],
      [(''extra'', ORef 3), (''theme'', ORef 4)],
      [(''site_name'', OStr ''Docs'')],
      [(''name'', OStr ''other'')],
      [(''extra'', ORef 3), (''theme'', ORef 4)]]"

text \<open>The small world with no directory in it.\<close>

definition bare_world :: world where
  "bare_world = quiet_world\<lparr>isdir := (\<lambda>d. False)\<rparr>"

text \<open>
  Two functions of modules, and a world in which a function of a module leaves its
  name at the end of the text of the page, \<^verbatim>\<open>env.markdown += ' +' + name\<close>, while the
  template engine fails on every text.
\<close>

definition h1 :: callable where
  "h1 = Callable 2 (Some ''h1'')"

definition h2 :: callable where
  "h2 = Callable 3 (Some ''h2'')"

definition marking :: "callable \<Rightarrow> macros_plugin \<Rightarrow> error + macros_plugin" where
  "marking f self =
     bindE (markdown self) (\<lambda>md.
       set_markdown self
         (PStr (md @ '' +'' @ (case dunder_name f of Some n \<Rightarrow> n | None \<Rightarrow> []))))"

definition marking_world :: world where
  "marking_world = failing_world\<lparr>call := marking\<rparr>"

text \<open>The plugin as \<open>on_config\<close> leaves it in the small world, with the default options.\<close>

definition configured_plugin :: macros_plugin where
  "configured_plugin =
     (loaded_plugin default_config)
       \<lparr>priv_variables := Some [(''extra'', PDict [(''site_name'', PStr ''Docs'')]),
                                (''config'', PDict site_config),
                                (''site_name'', PStr ''Docs''),
                                (''macros'', PDict []),
                                (''filters'', PDict []),
                                (''filters_builtin'', PDict [])],
        priv_filters := Some [],
        env := Some \<lparr> loader = ''/site/docs'', undefined_cls = DebugUndefined, markers = [],
                      globals = [], env_filters = [] \<rparr>\<rparr>"

section \<open>Basic facts\<close>

lemma bindE_Inl: "bindE (Inl e) f = Inl e"
  by (simp add: bindE_def)

lemma bindE_Inr: "bindE (Inr x) f = f x"
  by (simp add: bindE_def)

lemma attribute_Some: "attribute (Some v) = Inr v"
  by (simp add: attribute_def)

lemma attribute_None: "attribute None = Inl AttributeError"
  by (simp add: attribute_def)

lemmas example_defs =
  with_page_def ready_plugin_def a_page_def default_config_def quiet_world_def
  failing_world_def rewriting_world_def site_config_def

lemmas property_defs =
  variables_def macros_def page_def markdown_def conf_def pre_macro_functions_def
  post_macro_functions_def post_build_functions_def attribute_def

text \<open>The flags that a dictionary of metadata gives.\<close>

lemma macro_flags_dict:
  "macro_flags (PDict d) =
     Inr (case map_of d ''ignore_macros'' of Some v \<Rightarrow> v | None \<Rightarrow> PNone,
          case map_of d ''render_macros'' of Some v \<Rightarrow> v | None \<Rightarrow> PNone)"
  by (cases d) (simp_all add: macro_flags_def bindE_def)

lemma skipped_tristate:
  assumes "i \<in> {PNone, PBool True, PBool False}" and "r \<in> {PNone, PBool True, PBool False}"
  shows "skipped True i r \<longleftrightarrow> i = PBool True \<or> r = PBool False"
    and "skipped False i r \<longleftrightarrow> \<not> (r = PBool True \<or> i = PBool False)"
  using assms by (auto simp: skipped_def opt_out_def opt_in_def)

text \<open>\<open>render\<close> once the flags are known: one of two ways.\<close>

lemma render_decided:
  assumes "variables self = Inr vars" and "meta_variables self = Inr meta"
    and "macro_flags meta = Inr (i, r)"
  shows "render w self md =
           (if skipped (render_by_default (config self)) i r then Inr md
            else expand w self md vars meta)"
  using assms by (simp add: render_def bindE_def)

text \<open>What the deep merge binds a key to, for a right-hand store with distinct keys.\<close>

lemma map_of_update:
  "distinct (map fst d2) \<Longrightarrow>
   map_of (update d1 d2) k =
     (case map_of d2 k of
        None \<Rightarrow> map_of d1 k
      | Some v \<Rightarrow>
          Some (case (map_of d1 k, v) of
                  (Some (PDict a), PDict b) \<Rightarrow> PDict (update a b)
                | _ \<Rightarrow> v))"
proof (induction d2 arbitrary: d1)
  case Nil
  then show ?case by simp
next
  case (Cons entry d2)
  obtain key v where entry: "entry = (key, v)" by (cases entry)
  from Cons.prems entry have fresh: "map_of d2 key = None" and rest: "distinct (map fst d2)"
    by (auto simp: map_of_eq_None_iff)
  show ?case
    using Cons.IH [OF rest] fresh
    by (auto simp: entry update_conv' split: option.splits)
qed

text \<open>An entry of \<^verbatim>\<open>include_yaml\<close> whose file is there: its content is merged.\<close>

lemma load_yaml_entry_file:
  assumes "project_dir w self = Inr dir"
    and "yaml_file w (path_join w dir f) = Some (Inr content)"
    and "variables self = Inr vars"
  shows "load_yaml_entry w (PDict [(key, PStr f)]) self =
           Inr (self\<lparr>priv_variables := Some (update vars [(key, content)])\<rparr>)"
    and "content = PDict d \<Longrightarrow>
         load_yaml_entry w (PStr f) self = Inr (self\<lparr>priv_variables := Some (update vars d)\<rparr>)"
  using assms by (simp_all add: load_yaml_entry_def bindE_def)

text \<open>The parts of \<open>on_config\<close>, one by one.\<close>

lemma on_config_variables_ready:
  assumes "on_config_variables w self cfg = Inr ready"
  shows "\<exists>vars. variables ready = Inr vars"
  using assms
  by (auto simp: on_config_variables_def bindE_def Let_def split: sum.splits option.splits pyval.splits)

lemma undefined_behavior_cases:
  "undefined_behavior name =
     (if name = ''keep'' then Inr DebugUndefined
      else if name = ''silent'' then Inr Undefined
      else if name = ''strict'' then Inr StrictUndefined
      else if name = ''lax'' then Inr LaxUndefined
      else Inl ValueError)"
  by (simp add: undefined_behavior_def UNDEFINED_BEHAVIOR_def)

lemma on_config_environment_env:
  assumes "include_directory w (config self) cfg = Inr dir"
    and "undefined_behavior (on_undefined (config self)) = Inr cls"
    and "environment_error w dir cls (j2_markers (config self)) = None"
  shows "on_config_environment w self cfg =
           Inr ((snd (filters self))\<lparr>env := Some \<lparr> loader = dir, undefined_cls = cls,
                                  markers = j2_markers (config self),
                                  globals = default_globals w,
                                  env_filters = default_filters w \<rparr>\<rparr>)"
  using assms
  by (simp add: on_config_environment_def filters_def bindE_def split: option.splits)

lemma on_config_macros_filters_env:
  assumes "macros self = Inr m" and "variables self = Inr vars" and "env self = Some e"
  shows "\<exists>final e'. on_config_macros_filters self = Inr final \<and> env final = Some e'
           \<and> undefined_cls e' = undefined_cls e"
  using assms
  by (auto simp: on_config_macros_filters_def filters_def bindE_def Let_def property_defs
      split: option.splits)

text \<open>\<open>on_page_markdown\<close> from the call of \<open>render\<close> on, once the first functions have run.\<close>

lemma on_page_markdown_started:
  assumes "variables self = Inr vars" and "vars \<noteq> []"
    and "pre_macro_functions (started self md pg) = Inr pre"
    and "for_each (call w) pre (started self md pg) = Inr s"
    and "markdown s = Inr body"
  shows "on_page_markdown w self md pg =
           bindE (render w s (PStr body)) (\<lambda>rendered.
           bindE (set_markdown s rendered) (\<lambda>s.
           bindE (render_title w s) (\<lambda>s.
           bindE (post_macro_functions s) (\<lambda>funcs.
           bindE (for_each (call w) funcs s) (\<lambda>s.
           bindE (markdown s) (\<lambda>m. Inr (m, s)))))))"
proof -
  from assms(1) have vars: "priv_variables self = Some vars"
    by (simp add: property_defs split: option.splits)
  have s0: "started self md pg =
      self\<lparr>priv_page := Some pg, priv_variables := Some (AList.update ''page'' pg vars),
           priv_markdown := Some md\<rparr>"
    by (simp add: started_def vars)
  have pre: "pre_macro_functions (self\<lparr>priv_page := Some pg,
      priv_variables := Some (AList.update ''page'' pg vars)\<rparr>) = Inr pre"
    using assms(3) by (simp add: s0 property_defs)
  show ?thesis
    using assms(2,4,5) vars pre
    by (simp add: on_page_markdown_def Let_def variables_def attribute_def bindE_def s0
        pre_macro_functions_def)
qed

lemma render_skipped:
  assumes "meta_variables self = Inr meta" and "macro_flags meta = Inr (i, r)"
    and "skipped (render_by_default (config self)) i r"
  shows "render w self x = Inr x"
proof -
  from assms(1) obtain vars where "variables self = Inr vars"
    by (auto simp: meta_variables_def bindE_def split: sum.splits)
  from render_decided [OF this assms(1,2)] assms(3) show ?thesis by simp
qed

lemma setattr_same:
  assumes "getattr p n = Inr v"
  shows "setattr p n v = Inr p"
proof (cases p)
  case (PObj a)
  with assms have "map_of a n = Some v" by (simp split: option.splits)
  then show ?thesis by (simp add: PObj update_triv)
qed (use assms in simp_all)

lemma render_title_skipped:
  assumes "meta_variables self = Inr meta" and "macro_flags meta = Inr (i, r)"
    and "skipped (render_by_default (config self)) i r"
    and "page self = Inr p" and "getattr p ''title'' = Inr t"
  shows "render_title w self = Inr self"
proof -
  from assms(4) have "priv_page self = Some p"
    by (simp add: property_defs split: option.splits)
  then have "self\<lparr>priv_page := Some p\<rparr> = self" by simp
  then show ?thesis
    using assms(4,5) render_skipped [OF assms(1-3)] setattr_same [OF assms(5)]
    by (simp add: render_title_def bindE_def)
qed

lemma set_markdown_same:
  assumes "markdown self = Inr body"
  shows "set_markdown self (PStr body) = Inr self"
proof -
  from assms have "priv_markdown self = Some body"
    by (simp add: property_defs split: option.splits)
  then have "self\<lparr>priv_markdown := Some body\<rparr> = self" by simp
  then show ?thesis using assms by (simp add: bindE_def)
qed

lemma expand_raised:
  assumes "dict_update vars meta = Inr pv" and "env self = Some e"
    and "template_render w e x pv = Inl err" and "is_Exception err" and "page self = Inr p"
  shows "expand w self x vars meta =
           (if on_error_fail (config self) then Inl (SystemExit ERROR_MACRO)
            else Inr (PStr (format_error w err x p)))"
  using assms by (simp add: expand_def bindE_def)

text \<open>The diagnostic: longer than the text, and the parts are in it.\<close>

lemma format_error_parts:
  "format_error w err (PStr body) p \<noteq> body"
  "sublist (error_description w err) (format_error w err x p)"
  "sublist (document_identity w p) (format_error w err x p)"
  "suffix (text_of x) (format_error w err x p)"
proof -
  have "length (format_error w err (PStr body) p) > length body"
    by (simp add: format_error_def)
  then show "format_error w err (PStr body) p \<noteq> body" by auto
  show "sublist (error_description w err) (format_error w err x p)"
    unfolding format_error_def sublist_def
    by (rule exI [of _ "''Macro Rendering Error; file: '' @ document_identity w p @ ''; error: ''"],
        rule exI [of _ "''; text: '' @ text_of x"]) simp
  show "sublist (document_identity w p) (format_error w err x p)"
    unfolding format_error_def sublist_def
    by (rule exI [of _ "''Macro Rendering Error; file: ''"],
        rule exI [of _ "''; error: '' @ error_description w err @ ''; text: '' @ text_of x"]) simp
  show "suffix (text_of x) (format_error w err x p)"
    unfolding format_error_def suffix_def
    by (rule exI [of _ "''Macro Rendering Error; file: '' @ document_identity w p
          @ ''; error: '' @ error_description w err @ ''; text: ''"]) simp
qed

lemma expand_rendered:
  assumes "dict_update vars meta = Inr pv" and "env self = Some e"
    and "template_render w e x pv = Inr out"
  shows "expand w self x vars meta = Inr (PStr out)"
  using assms by (simp add: expand_def bindE_def)

lemmas run_defs =
  started_def meta_variables_def macro_flags_def skipped_def opt_out_def opt_in_def
  render_def expand_def render_title_def format_error_def src_path_def update_items_def
  bindE_def

text \<open>A loop over functions, as a fold: each is called on what the one before left.\<close>

lemma bindE_Inr_id: "bindE r Inr = r"
  by (cases r) (simp_all add: bindE_def)

lemma bindE_assoc: "bindE (bindE r f) g = bindE r (\<lambda>x. bindE (f x) g)"
  by (cases r) (simp_all add: bindE_def)

lemma fold_for_each:
  "fold (\<lambda>x r. bindE r (f x)) xs r = bindE r (for_each f xs)"
proof (induction xs arbitrary: r)
  case Nil
  have "for_each f [] = Inr" by (rule ext) simp
  then show ?case by (simp add: bindE_Inr_id)
next
  case (Cons x xs)
  have "for_each f (x # xs) = (\<lambda>s. bindE (f x s) (for_each f xs))" by (rule ext) simp
  then show ?case by (simp add: Cons.IH bindE_assoc)
qed

lemma for_each_fold:
  "for_each f xs s = fold (\<lambda>x r. bindE r (f x)) xs (Inr s)"
  by (simp add: fold_for_each bindE_Inr)

text \<open>Rendering the title leaves the text of the page alone.\<close>

lemma render_title_markdown:
  assumes "render_title w self = Inr titled"
  shows "markdown titled = markdown self"
  using assms
  by (auto simp: render_title_def bindE_def property_defs split: sum.splits)

text \<open>A failure of \<open>on_config\<close> is the failure of the build.\<close>

lemma build_failed:
  assumes "on_config w self cfg = Inl e"
  shows "build w self cfg pages = Inl e"
  using assms by (simp add: build_def bindE_def)

lemma on_config_first:
  assumes "on_config_variables w self cfg = Inl e"
  shows "on_config w self cfg = Inl e"
  using assms by (simp add: on_config_def bindE_def)

text \<open>\<open>on_config\<close> in the small worlds, part by part.\<close>

lemmas variables_defs =
  on_config_variables_def load_yaml_def load_modules_def load_local_module_def project_dir_def
  new_plugin_def site_config_def property_defs bindE_def YAML_VARIABLES_def
  DEFAULT_MODULE_NAME_def update_items_def

lemma loaded_plugin_reached:
  assumes "context_define_env w = Inr"
    and "dirname_abspath w ''/site/mkdocs.yml'' = ''/site''"
    and "import_local_module w ''/site'' (module_name c) = Inr None"
    and "modules c = []" and "include_yaml c = []"
  shows "on_config_variables w (new_plugin c) site_config =
           (if module_name c = ''main'' then Inr (loaded_plugin c) else Inl ImportError)"
  using assms by (simp add: variables_defs loaded_plugin_def)

lemma small_worlds:
  "context_define_env quiet_world = Inr"
  "dirname_abspath quiet_world p = ''/site''"
  "import_local_module quiet_world d n = Inr None"
  "isdir quiet_world d"
  "environment_error quiet_world = jinja_sanity"
  "context_define_env bare_world = Inr"
  "dirname_abspath bare_world p = ''/site''"
  "import_local_module bare_world d n = Inr None"
  "\<not> isdir bare_world d"
  by (simp_all add: quiet_world_def bare_world_def)

lemma loaded_plugin_config:
  "config (loaded_plugin c) = c"
  "macros (loaded_plugin c) = Inr []"
  "filters (loaded_plugin c) = ([], (loaded_plugin c)\<lparr>priv_filters := Some []\<rparr>)"
  by (simp_all add: loaded_plugin_def new_plugin_def property_defs filters_def)

lemma include_directory_docs:
  assumes "include_dir c = []"
  shows "include_directory w c site_config =
           (if isdir w ''/site/docs'' then Inr ''/site/docs'' else Inl FileNotFoundError)"
  using assms by (simp add: include_directory_def site_config_def)

lemma default_config_fields:
  "module_name default_config = ''main''" "modules default_config = []"
  "include_yaml default_config = []" "include_dir default_config = []"
  "on_undefined default_config = ''keep''" "j2_markers default_config = []"
  by (simp_all add: default_config_def DEFAULT_MODULE_NAME_def DEFAULT_UNDEFINED_BEHAVIOR_def
      j2_markers_def)

lemma configured_plugin_reached:
  "on_config quiet_world (new_plugin default_config) site_config = Inr configured_plugin"
proof -
  have "on_config_variables quiet_world (new_plugin default_config) site_config =
      Inr (loaded_plugin default_config)"
    by (simp add: loaded_plugin_reached small_worlds default_config_fields)
  moreover have "on_config_environment quiet_world (loaded_plugin default_config) site_config =
      Inr ((loaded_plugin default_config)
        \<lparr>priv_filters := Some [],
         env := Some \<lparr> loader = ''/site/docs'', undefined_cls = DebugUndefined, markers = [],
                       globals = [], env_filters = [] \<rparr>\<rparr>)"
    by (simp add: on_config_environment_def loaded_plugin_config include_directory_docs
        small_worlds default_config_fields undefined_behavior_cases jinja_sanity_def bindE_def
        quiet_world_def)
  moreover have "on_config_macros_filters ((loaded_plugin default_config)
        \<lparr>priv_filters := Some [],
         env := Some \<lparr> loader = ''/site/docs'', undefined_cls = DebugUndefined, markers = [],
                       globals = [], env_filters = [] \<rparr>\<rparr>) = Inr configured_plugin"
    by (simp add: on_config_macros_filters_def configured_plugin_def loaded_plugin_def
        new_plugin_def property_defs filters_def bindE_def update_items_def)
  ultimately show ?thesis by (simp add: on_config_def bindE_def)
qed

lemma configured_plugin_fields:
  "config configured_plugin = default_config"
  "priv_variables configured_plugin =
     Some [(''extra'', PDict [(''site_name'', PStr ''Docs'')]),
           (''config'', PDict site_config),
           (''site_name'', PStr ''Docs''),
           (''macros'', PDict []),
           (''filters'', PDict []),
           (''filters_builtin'', PDict [])]"
  "priv_pre_macro_functions configured_plugin = Some []"
  "priv_post_macro_functions configured_plugin = Some []"
  "priv_post_build_functions configured_plugin = Some []"
  "env configured_plugin =
     Some \<lparr> loader = ''/site/docs'', undefined_cls = DebugUndefined, markers = [],
            globals = [], env_filters = [] \<rparr>"
  by (simp_all add: configured_plugin_def loaded_plugin_def new_plugin_def)

lemma configured_plugin_page:
  "on_page_markdown quiet_world configured_plugin ''# Home'' (a_page []) =
     Inr (''# Home'', started configured_plugin ''# Home'' (a_page []))"
  by (simp add: on_page_markdown_def configured_plugin_fields started_def render_def
      meta_variables_def macro_flags_def skipped_def opt_out_def opt_in_def expand_def
      render_title_def update_items_def a_page_def property_defs bindE_def Let_def
      quiet_world_def default_config_def)

section \<open>Properties read too early\<close>

text \<open>
  Claim C10.  Read before they are assigned, the properties \<open>variables\<close>, \<open>macros\<close>,
  \<open>page\<close>, \<open>markdown\<close> and the three lists of functions raise \<^verbatim>\<open>AttributeError\<close>.
  The property \<open>filters\<close> does not raise: read before it is assigned, it assigns the empty
  mapping and returns it, and the next reading finds that mapping.
\<close>

theorem filters_never_raises:
  "(priv_variables self = None \<longrightarrow> variables self = Inl AttributeError)
   \<and> (priv_macros self = None \<longrightarrow> macros self = Inl AttributeError)
   \<and> (priv_page self = None \<longrightarrow> page self = Inl AttributeError)
   \<and> (priv_markdown self = None \<longrightarrow> markdown self = Inl AttributeError)
   \<and> (priv_pre_macro_functions self = None \<longrightarrow>
        pre_macro_functions self = Inl AttributeError)
   \<and> (priv_post_macro_functions self = None \<longrightarrow>
        post_macro_functions self = Inl AttributeError)
   \<and> (priv_post_build_functions self = None \<longrightarrow>
        post_build_functions self = Inl AttributeError)
   \<and> (priv_filters self = None \<longrightarrow>
        filters self = ([], self\<lparr>priv_filters := Some []\<rparr>)
        \<and> filters (snd (filters self)) = ([], snd (filters self)))"
  by (simp add: variables_def macros_def page_def markdown_def pre_macro_functions_def
      post_macro_functions_def post_build_functions_def filters_def attribute_def)

theorem filters_never_raises_witness:
  "priv_filters (new_plugin default_config) = None
   \<and> variables (new_plugin default_config) = Inl AttributeError
   \<and> macros (new_plugin default_config) = Inl AttributeError
   \<and> page (new_plugin default_config) = Inl AttributeError
   \<and> markdown (new_plugin default_config) = Inl AttributeError
   \<and> pre_macro_functions (new_plugin default_config) = Inl AttributeError
   \<and> post_macro_functions (new_plugin default_config) = Inl AttributeError
   \<and> post_build_functions (new_plugin default_config) = Inl AttributeError
   \<and> fst (filters (new_plugin default_config)) = []
   \<and> priv_filters (snd (filters (new_plugin default_config))) = Some []"
  using filters_never_raises [of "new_plugin default_config"]
  by (simp add: new_plugin_def)

section \<open>Registration\<close>

text \<open>
  Claim C9.  \<open>macro\<close> with no name (the empty name, its default) binds the callable
  under its own \<^verbatim>\<open>__name__\<close>, with a name it binds it under that name, and it returns
  the callable it was given; \<open>filter\<close> does the same in the filters.  The binding
  replaces whatever the name was bound to, with no error, and leaves every other name
  as it was.  A macro leaves the filters alone and a filter the macros: they are two
  mappings.
\<close>

theorem registration:
  "(priv_macros self = Some m \<and> dunder_name v = Some n \<longrightarrow>
      macro self v [] = Inr (v, self\<lparr>priv_macros := Some (AList.update n (PFunc v) m)\<rparr>))
   \<and> (priv_macros self = Some m \<and> name \<noteq> [] \<longrightarrow>
      macro self v name =
        Inr (v, self\<lparr>priv_macros := Some (AList.update name (PFunc v) m)\<rparr>))
   \<and> (fst (filters self) = f \<and> dunder_name v = Some n \<longrightarrow>
      filter' self v [] = Inr (v, self\<lparr>priv_filters := Some (AList.update n (PFunc v) f)\<rparr>))
   \<and> (fst (filters self) = f \<and> name \<noteq> [] \<longrightarrow>
      filter' self v name =
        Inr (v, self\<lparr>priv_filters := Some (AList.update name (PFunc v) f)\<rparr>))
   \<and> map_of (AList.update k (PFunc v) d) = (map_of d)(k \<mapsto> PFunc v)
   \<and> (macro self v name = Inr (v', self') \<longrightarrow>
        v' = v \<and> priv_filters self' = priv_filters self)
   \<and> (filter' self v name = Inr (v', self') \<longrightarrow>
        v' = v \<and> priv_macros self' = priv_macros self)"
  by (auto simp: macro_def filter'_def name_or_def macros_def filters_def attribute_def
      bindE_def update_conv' split: option.splits if_splits)

theorem registration_witness:
  "priv_macros (ready_plugin default_config [] []) = Some []
   \<and> fst (filters (ready_plugin default_config [] [])) = []
   \<and> (dunder_name double = Some ''double''
     \<and> macro (ready_plugin default_config [] []) double [] =
         Inr (double, (ready_plugin default_config [] [])
                \<lparr>priv_macros := Some [(''double'', PFunc double)]\<rparr>)
     \<and> macro (ready_plugin default_config [] []) double ''twice'' =
         Inr (double, (ready_plugin default_config [] [])
                \<lparr>priv_macros := Some [(''twice'', PFunc double)]\<rparr>)
     \<and> filter' (ready_plugin default_config [] []) double [] =
         Inr (double, (ready_plugin default_config [] [])
                \<lparr>priv_filters := Some [(''double'', PFunc double)]\<rparr>)
     \<and> filter' (ready_plugin default_config [] []) double ''twice'' =
         Inr (double, (ready_plugin default_config [] [])
                \<lparr>priv_filters := Some [(''twice'', PFunc double)]\<rparr>)
     \<and> map_of (AList.update ''double'' (PFunc double) [(''double'', PFunc rewriting)]) ''double''
         = Some (PFunc double))"
  using registration [where self = "ready_plugin default_config [] []" and m = "[]"
      and v = double and n = "''double''" and name = "''twice''" and f = "[]"
      and k = "''double''" and d = "[(''double'', PFunc rewriting)]"]
  by (simp add: ready_plugin_def double_def filters_def)

section \<open>The decision to render\<close>

text \<open>
  Claim C1.  Let the metadata of the page give the two flags \<^verbatim>\<open>ignore_macros\<close> and
  \<^verbatim>\<open>render_macros\<close>, each true, false or unset (\<^verbatim>\<open>None\<close>).  Under
  \<^verbatim>\<open>render_by_default\<close> the page is skipped, that is \<open>render\<close> returns its text as it
  is, if and only if \<^verbatim>\<open>ignore_macros\<close> is true or \<^verbatim>\<open>render_macros\<close> is false;
  without \<^verbatim>\<open>render_by_default\<close> the page is rendered, that is \<open>render\<close> expands the
  template, if and only if \<^verbatim>\<open>render_macros\<close> is true or \<^verbatim>\<open>ignore_macros\<close> is false.
  It is always the one or the other.
\<close>

theorem render_decision:
  assumes "variables self = Inr vars" and "meta_variables self = Inr meta"
    and "macro_flags meta = Inr (ignore_macros, render_macros)"
    and "ignore_macros \<in> {PNone, PBool True, PBool False}"
    and "render_macros \<in> {PNone, PBool True, PBool False}"
  shows "(render_by_default (config self) \<longrightarrow>
            (skipped True ignore_macros render_macros \<longleftrightarrow>
               ignore_macros = PBool True \<or> render_macros = PBool False)
          \<and> render w self md =
               (if ignore_macros = PBool True \<or> render_macros = PBool False then Inr md
                else expand w self md vars meta))
       \<and> (\<not> render_by_default (config self) \<longrightarrow>
            (\<not> skipped False ignore_macros render_macros \<longleftrightarrow>
               render_macros = PBool True \<or> ignore_macros = PBool False)
          \<and> render w self md =
               (if render_macros = PBool True \<or> ignore_macros = PBool False
                then expand w self md vars meta else Inr md))"
  using render_decided [OF assms(1-3), of w md] skipped_tristate [OF assms(4,5)]
  by auto

theorem render_decision_witness:
  "variables (with_page (ready_plugin default_config [] [])
       (a_page [(''ignore_macros'', PBool True)])) =
     Inr [(''extra'', PDict [(''site_name'', PStr ''Docs'')]), (''site_name'', PStr ''Docs''),
          (''page'', a_page [(''ignore_macros'', PBool True)])]
   \<and> macro_flags (PDict [(''ignore_macros'', PBool True)]) = Inr (PBool True, PNone)
   \<and> render failing_world
        (with_page (ready_plugin default_config [] [])
           (a_page [(''ignore_macros'', PBool True)])) (PStr ''{{ x }}'') =
       Inr (PStr ''{{ x }}'')
   \<and> macro_flags (PDict [(''render_macros'', PBool True)]) = Inr (PNone, PBool True)
   \<and> render failing_world
        (with_page (ready_plugin (default_config\<lparr>render_by_default := False\<rparr>) [] [])
           (a_page [(''render_macros'', PBool True)])) (PStr ''{{ x }}'') =
       Inr (PStr ''Macro Rendering Error; file: index.md; error: UndefinedError; text: {{ x }}'')"
proof -
  let ?out = "with_page (ready_plugin default_config [] [])
       (a_page [(''ignore_macros'', PBool True)])"
  let ?in = "with_page (ready_plugin (default_config\<lparr>render_by_default := False\<rparr>) [] [])
       (a_page [(''render_macros'', PBool True)])"
  have out: "variables ?out =
     Inr [(''extra'', PDict [(''site_name'', PStr ''Docs'')]), (''site_name'', PStr ''Docs''),
          (''page'', a_page [(''ignore_macros'', PBool True)])]"
    "meta_variables ?out = Inr (PDict [(''ignore_macros'', PBool True)])"
    "macro_flags (PDict [(''ignore_macros'', PBool True)]) = Inr (PBool True, PNone)"
    "render_by_default (config ?out)"
    by (simp_all add: example_defs property_defs meta_variables_def macro_flags_def bindE_def)
  have "in": "variables ?in =
     Inr [(''extra'', PDict [(''site_name'', PStr ''Docs'')]), (''site_name'', PStr ''Docs''),
          (''page'', a_page [(''render_macros'', PBool True)])]"
    "meta_variables ?in = Inr (PDict [(''render_macros'', PBool True)])"
    "macro_flags (PDict [(''render_macros'', PBool True)]) = Inr (PNone, PBool True)"
    "\<not> render_by_default (config ?in)"
    by (simp_all add: example_defs property_defs meta_variables_def macro_flags_def bindE_def)
  have expanded: "expand failing_world ?in (PStr ''{{ x }}'')
      [(''extra'', PDict [(''site_name'', PStr ''Docs'')]), (''site_name'', PStr ''Docs''),
       (''page'', a_page [(''render_macros'', PBool True)])]
      (PDict [(''render_macros'', PBool True)]) =
      Inr (PStr ''Macro Rendering Error; file: index.md; error: UndefinedError; text: {{ x }}'')"
    by (simp add: expand_def example_defs property_defs bindE_def format_error_def
        update_items_def src_path_def)
  show ?thesis
    using render_decision [OF out(1-3), of failing_world "PStr ''{{ x }}''"]
      render_decision [OF "in"(1-3), of failing_world "PStr ''{{ x }}''"]
      out "in" expanded
    by simp
qed

section \<open>Loading modules\<close>

text \<open>
  Claim C7.  A module that has neither \<^verbatim>\<open>define_env\<close> nor \<^verbatim>\<open>declare_variables\<close>
  fails to load with \<^verbatim>\<open>NameError\<close>, whatever optional functions it has, and whether
  it is handed to \<open>_load_module\<close>, named in \<^verbatim>\<open>modules\<close> or the local module.  (The
  project directory is known: the first thing \<open>_load_module\<close> does is to read it.)
\<close>

theorem module_without_registration:
  assumes "m_define_env m = None" and "m_declare_variables m = None"
  shows "(project_dir w self = Inr dir \<longrightarrow>
            load_module w self (Some m) name = Inl NameError)
       \<and> (project_dir w self = Inr dir \<and> import_module w (snd (parse_package w entry)) = Inr m \<longrightarrow>
            load_named_module w entry self = Inl NameError)
       \<and> (project_dir w self = Inr dir
            \<and> import_local_module w dir (module_name (config self)) = Inr (Some m) \<longrightarrow>
            load_local_module w self = Inl NameError)"
  using assms
  by (auto simp: load_module_def load_named_module_def load_local_module_def bindE_def
      split: prod.splits)

theorem module_without_registration_witness:
  "m_define_env hook_only = None \<and> m_declare_variables hook_only = None
   \<and> m_on_pre_page_macros hook_only = Some rewriting
   \<and> project_dir quiet_world (ready_plugin default_config [] []) = Inr ''/site''
   \<and> load_module quiet_world (ready_plugin default_config [] []) (Some hook_only) ''pluglet''
       = Inl NameError
   \<and> load_named_module (quiet_world\<lparr>import_module := (\<lambda>name. Inr hook_only)\<rparr>)
         ''pluglet'' (ready_plugin default_config [] []) = Inl NameError
   \<and> load_local_module (quiet_world\<lparr>import_local_module := (\<lambda>dir name. Inr (Some hook_only))\<rparr>)
         (ready_plugin default_config [] []) = Inl NameError"
proof -
  have none: "m_define_env hook_only = None" "m_declare_variables hook_only = None"
    by (simp_all add: hook_only_def)
  have dir: "project_dir quiet_world (ready_plugin default_config [] []) = Inr ''/site''"
    "project_dir (quiet_world\<lparr>import_module := (\<lambda>name. Inr hook_only)\<rparr>)
       (ready_plugin default_config [] []) = Inr ''/site''"
    "project_dir (quiet_world\<lparr>import_local_module := (\<lambda>dir name. Inr (Some hook_only))\<rparr>)
       (ready_plugin default_config [] []) = Inr ''/site''"
    by (simp_all add: project_dir_def example_defs property_defs bindE_def)
  show ?thesis
    using module_without_registration [OF none, of quiet_world "ready_plugin default_config [] []"
        "''/site''" "''pluglet''"]
      module_without_registration [OF none,
        of "quiet_world\<lparr>import_module := (\<lambda>name. Inr hook_only)\<rparr>"
        "ready_plugin default_config [] []" "''/site''" _ "''pluglet''"]
      module_without_registration [OF none,
        of "quiet_world\<lparr>import_local_module := (\<lambda>dir name. Inr (Some hook_only))\<rparr>"
        "ready_plugin default_config [] []" "''/site''"]
      dir
    by (simp add: hook_only_def quiet_world_def)
qed

text \<open>
  Claim C8.  After the named modules are loaded, the local module is looked up, once.
  If there is none and the configured name is the default, \<^verbatim>\<open>main\<close>, loading ends
  well and the plugin is as the named modules left it; if there is none and the name is
  another, loading fails with \<^verbatim>\<open>ImportError\<close>.
\<close>

theorem local_module_absent:
  assumes "for_each (load_named_module w) (modules (config self))
             (self\<lparr>priv_pre_macro_functions := Some [],
                   priv_post_macro_functions := Some [],
                   priv_post_build_functions := Some []\<rparr>) = Inr loaded"
    and "project_dir w loaded = Inr dir"
    and "import_local_module w dir (module_name (config loaded)) = Inr None"
  shows "DEFAULT_MODULE_NAME = ''main''
       \<and> (module_name (config loaded) = ''main'' \<longrightarrow> load_modules w self = Inr loaded)
       \<and> (module_name (config loaded) \<noteq> ''main'' \<longrightarrow> load_modules w self = Inl ImportError)"
  using assms
  by (auto simp: load_modules_def load_local_module_def bindE_def DEFAULT_MODULE_NAME_def
      Let_def)

theorem local_module_absent_witness:
  "load_modules quiet_world (ready_plugin default_config [rewriting] [double]) =
     Inr (ready_plugin default_config [] [])
   \<and> load_modules quiet_world
        (ready_plugin (default_config\<lparr>module_name := ''custom''\<rparr>) [] []) = Inl ImportError"
proof -
  let ?main = "ready_plugin default_config [rewriting] [double]"
  let ?custom = "ready_plugin (default_config\<lparr>module_name := ''custom''\<rparr>) [] []"
  have main: "for_each (load_named_module quiet_world) (modules (config ?main))
             (?main\<lparr>priv_pre_macro_functions := Some [],
                   priv_post_macro_functions := Some [],
                   priv_post_build_functions := Some []\<rparr>) =
             Inr (ready_plugin default_config [] [])"
    "project_dir quiet_world (ready_plugin default_config [] []) = Inr ''/site''"
    "import_local_module quiet_world ''/site''
       (module_name (config (ready_plugin default_config [] []))) = Inr None"
    "module_name (config (ready_plugin default_config [] [])) = ''main''"
    by (simp_all add: project_dir_def example_defs property_defs bindE_def
        DEFAULT_MODULE_NAME_def)
  have custom: "for_each (load_named_module quiet_world) (modules (config ?custom))
             (?custom\<lparr>priv_pre_macro_functions := Some [],
                   priv_post_macro_functions := Some [],
                   priv_post_build_functions := Some []\<rparr>) = Inr ?custom"
    "project_dir quiet_world ?custom = Inr ''/site''"
    "import_local_module quiet_world ''/site'' (module_name (config ?custom)) = Inr None"
    "module_name (config ?custom) \<noteq> ''main''"
    by (simp_all add: project_dir_def example_defs property_defs bindE_def
        DEFAULT_MODULE_NAME_def)
  show ?thesis
    using local_module_absent [OF main(1-3)] local_module_absent [OF custom(1-3)]
      main(4) custom(4)
    by simp
qed

section \<open>Deep merge\<close>

text \<open>
  Claim C5.  The deep merge of two stores is right-biased and recursive: a key that
  both stores bind to a nested mapping is bound to the merge of the two mappings, any
  other key of the right-hand store is bound to the right-hand value, and a key that
  the right-hand store lacks keeps its value.  Merging \<^verbatim>\<open>{a: {x: 1, y: 2}}\<close> with
  \<^verbatim>\<open>{a: {y: 3, z: 4}}\<close> gives \<^verbatim>\<open>{a: {x: 1, y: 3, z: 4}}\<close>.  This is the merge that
  \<open>_load_yaml\<close> applies to the variables and the content of a file.
\<close>

theorem deep_merge:
  assumes "distinct (map fst d2)"
  shows "(map_of d1 k = Some (PDict a) \<and> map_of d2 k = Some (PDict b) \<longrightarrow>
            map_of (update d1 d2) k = Some (PDict (update a b)))
       \<and> (map_of d2 k = Some v
            \<and> ((\<forall>a. map_of d1 k \<noteq> Some (PDict a)) \<or> (\<forall>b. v \<noteq> PDict b)) \<longrightarrow>
            map_of (update d1 d2) k = Some v)
       \<and> (map_of d2 k = None \<longrightarrow> map_of (update d1 d2) k = map_of d1 k)
       \<and> update [(''a'', PDict [(''x'', PInt 1), (''y'', PInt 2)])]
                 [(''a'', PDict [(''y'', PInt 3), (''z'', PInt 4)])]
          = [(''a'', PDict [(''x'', PInt 1), (''y'', PInt 3), (''z'', PInt 4)])]
       \<and> (project_dir w self = Inr dir \<and> variables self = Inr d1
            \<and> yaml_file w (path_join w dir f) = Some (Inr (PDict d2)) \<longrightarrow>
            load_yaml_entry w (PStr f) self =
              Inr (self\<lparr>priv_variables := Some (update d1 d2)\<rparr>))"
  using map_of_update [OF assms, of d1 k] load_yaml_entry_file(2) [of w self dir f "PDict d2" d1 d2]
  by (auto split: option.splits pyval.splits)

theorem deep_merge_witness:
  "distinct (map fst [(''extra'', PDict [(''site_name'', PStr ''More'')]), (''site_name'', PInt 5)])
   \<and> map_of (update [(''extra'', PDict [(''site_name'', PStr ''Docs''), (''year'', PInt 2018)]),
                     (''site_name'', PDict []), (''author'', PStr ''LF'')]
               [(''extra'', PDict [(''site_name'', PStr ''More'')]), (''site_name'', PInt 5)])
        ''extra''
       = Some (PDict [(''site_name'', PStr ''More''), (''year'', PInt 2018)])
   \<and> map_of (update [(''extra'', PDict [(''site_name'', PStr ''Docs''), (''year'', PInt 2018)]),
                     (''site_name'', PDict []), (''author'', PStr ''LF'')]
               [(''extra'', PDict [(''site_name'', PStr ''More'')]), (''site_name'', PInt 5)])
        ''site_name'' = Some (PInt 5)
   \<and> map_of (update [(''extra'', PDict [(''site_name'', PStr ''Docs''), (''year'', PInt 2018)]),
                     (''site_name'', PDict []), (''author'', PStr ''LF'')]
               [(''extra'', PDict [(''site_name'', PStr ''More'')]), (''site_name'', PInt 5)])
        ''author'' = Some (PStr ''LF'')
   \<and> load_yaml_entry yaml_world (PStr ''more.yml'') (ready_plugin default_config [] []) =
       Inr ((ready_plugin default_config [] [])
              \<lparr>priv_variables := Some [(''extra'', PDict [(''site_name'', PStr ''More'')]),
                                       (''site_name'', PInt 5)]\<rparr>)"
proof -
  let ?d1 = "[(''extra'', PDict [(''site_name'', PStr ''Docs''), (''year'', PInt 2018)]),
              (''site_name'', PDict []), (''author'', PStr ''LF'')]"
  let ?d2 = "[(''extra'', PDict [(''site_name'', PStr ''More'')]), (''site_name'', PInt 5)]"
  let ?self = "ready_plugin default_config [] []"
  have d: "distinct (map fst ?d2)" by simp
  have loaded: "project_dir yaml_world ?self = Inr ''/site''"
    "variables ?self = Inr [(''extra'', PDict [(''site_name'', PStr ''Docs'')]),
                            (''site_name'', PStr ''Docs'')]"
    "yaml_file yaml_world (path_join yaml_world ''/site'' ''more.yml'') = Some (Inr (PDict ?d2))"
    by (simp_all add: project_dir_def yaml_world_def example_defs property_defs bindE_def)
  show ?thesis
    using deep_merge [OF d, of ?d1 "''extra''" "[(''site_name'', PStr ''Docs''), (''year'', PInt 2018)]"
        "[(''site_name'', PStr ''More'')]"]
      deep_merge [OF d, of ?d1 "''site_name''" _ _ "PInt 5"]
      deep_merge [OF d, of ?d1 "''author''"]
      deep_merge [OF d, of "[(''extra'', PDict [(''site_name'', PStr ''Docs'')]),
                            (''site_name'', PStr ''Docs'')]" _ _ _ _ yaml_world ?self "''/site''"
        "''more.yml''"]
      loaded
    by simp
qed

section \<open>A page that is skipped\<close>

text \<open>
  Claim C2, as amended.  For a page whose decision is to skip, \<open>render\<close> returns the
  text it is given as it is, whatever the template engine would do with it.  The
  functions of the modules are called all the same, those for before the macros ahead of
  the decision and those for after the macros once \<open>render\<close> has returned: what
  \<open>on_page_markdown\<close> returns is the text as these functions leave it, and it is the
  text of the page when there are none.
\<close>

theorem skipped_page:
  assumes "variables self = Inr vars" and "vars \<noteq> []"
    and "pre_macro_functions (started self md pg) = Inr pre"
    and "for_each (call w) pre (started self md pg) = Inr s"
    and "markdown s = Inr body"
    and "meta_variables s = Inr meta" and "macro_flags meta = Inr (i, r)"
    and "skipped (render_by_default (config s)) i r"
  shows "render w' s x = Inr x
       \<and> (page s = Inr p \<and> getattr p ''title'' = Inr t \<and> post_macro_functions s = Inr post \<longrightarrow>
            on_page_markdown w self md pg =
              bindE (for_each (call w) post s) (\<lambda>s. bindE (markdown s) (\<lambda>m. Inr (m, s))))
       \<and> (page s = Inr p \<and> getattr p ''title'' = Inr t \<and> post_macro_functions s = Inr []
            \<and> pre = [] \<longrightarrow>
            on_page_markdown w self md pg = Inr (md, started self md pg))"
proof -
  note skip = assms(6-8)
  have page: "on_page_markdown w self md pg =
      bindE (for_each (call w) post s) (\<lambda>s. bindE (markdown s) (\<lambda>m. Inr (m, s)))"
    if "page s = Inr p" "getattr p ''title'' = Inr t" "post_macro_functions s = Inr post"
    for post
    using on_page_markdown_started [OF assms(1-5)] render_skipped [OF skip, of w "PStr body"]
      set_markdown_same [OF assms(5)] render_title_skipped [OF skip that(1,2), of w] that(3)
    by (simp add: bindE_def)
  have none: "on_page_markdown w self md pg = Inr (md, started self md pg)"
    if "page s = Inr p" "getattr p ''title'' = Inr t" "post_macro_functions s = Inr []"
      "pre = []"
  proof -
    from assms(4) that(4) have s: "s = started self md pg" by simp
    then have "markdown s = Inr md" by (simp add: started_def property_defs)
    with page [OF that(1-3)] s show ?thesis by (simp add: bindE_def)
  qed
  show ?thesis
    using render_skipped [OF skip, of w' x] page none by blast
qed

theorem skipped_page_witness:
  "render failing_world
     ((started (ready_plugin default_config [rewriting] []) ''# Home''
         (a_page [(''ignore_macros'', PBool True)]))\<lparr>priv_markdown := Some ''changed''\<rparr>)
     (PStr ''{{ x }}'') = Inr (PStr ''{{ x }}'')
   \<and> on_page_markdown rewriting_world (ready_plugin default_config [rewriting] []) ''# Home''
        (a_page [(''ignore_macros'', PBool True)]) =
       Inr (''changed'',
            (started (ready_plugin default_config [rewriting] []) ''# Home''
               (a_page [(''ignore_macros'', PBool True)]))\<lparr>priv_markdown := Some ''changed''\<rparr>)
   \<and> on_page_markdown quiet_world (ready_plugin default_config [] []) ''# Home''
        (a_page [(''ignore_macros'', PBool True)]) =
       Inr (''# Home'',
            started (ready_plugin default_config [] []) ''# Home''
              (a_page [(''ignore_macros'', PBool True)]))"
proof -
  let ?vars = "[(''extra'', PDict [(''site_name'', PStr ''Docs'')]), (''site_name'', PStr ''Docs'')]"
  let ?pg = "a_page [(''ignore_macros'', PBool True)]"
  let ?meta = "PDict [(''ignore_macros'', PBool True)]"
  let ?begun = "started (ready_plugin default_config [rewriting] []) ''# Home'' ?pg"
  let ?s = "?begun\<lparr>priv_markdown := Some ''changed''\<rparr>"
  let ?q = "started (ready_plugin default_config [] []) ''# Home'' ?pg"
  have rewritten: "variables (ready_plugin default_config [rewriting] []) = Inr ?vars"
    "?vars \<noteq> []"
    "pre_macro_functions ?begun = Inr [rewriting]"
    "for_each (call rewriting_world) [rewriting] ?begun = Inr ?s"
    "markdown ?s = Inr ''changed''"
    "meta_variables ?s = Inr ?meta"
    "macro_flags ?meta = Inr (PBool True, PNone)"
    "skipped (render_by_default (config ?s)) (PBool True) PNone"
    "page ?s = Inr ?pg" "getattr ?pg ''title'' = Inr (PStr ''Home'')"
    "post_macro_functions ?s = Inr []"
    by (simp_all add: run_defs example_defs property_defs)
  have quiet: "variables (ready_plugin default_config [] []) = Inr ?vars"
    "?vars \<noteq> []"
    "pre_macro_functions ?q = Inr []"
    "for_each (call quiet_world) [] ?q = Inr ?q"
    "markdown ?q = Inr ''# Home''"
    "meta_variables ?q = Inr ?meta"
    "macro_flags ?meta = Inr (PBool True, PNone)"
    "skipped (render_by_default (config ?q)) (PBool True) PNone"
    "page ?q = Inr ?pg" "getattr ?pg ''title'' = Inr (PStr ''Home'')"
    "post_macro_functions ?q = Inr []"
    by (simp_all add: run_defs example_defs property_defs)
  show ?thesis
    using skipped_page [where w = rewriting_world and w' = failing_world
          and x = "PStr ''{{ x }}''" and p = "?pg" and t = "PStr ''Home''" and post = "[]",
        OF rewritten(1-8)]
      skipped_page [where w = quiet_world and p = "?pg" and t = "PStr ''Home''",
        OF quiet(1-8)]
      rewritten(5,9-11) quiet(9-11)
    by (simp add: bindE_def)
qed

text \<open>
  Claim C2 as the spec has it fails: the page says \<^verbatim>\<open>ignore_macros: true\<close>, a module
  has an \<^verbatim>\<open>on_pre_page_macros\<close> that sets \<^verbatim>\<open>env.markdown\<close>, and the text that
  \<open>on_page_markdown\<close> returns is the text that this function has set.
\<close>

theorem skipped_page_counterexample:
  "meta_variables (started (ready_plugin default_config [rewriting] []) ''# Home''
       (a_page [(''ignore_macros'', PBool True)])) = Inr (PDict [(''ignore_macros'', PBool True)])
   \<and> macro_flags (PDict [(''ignore_macros'', PBool True)]) = Inr (PBool True, PNone)
   \<and> skipped (render_by_default default_config) (PBool True) PNone
   \<and> map_sum id fst
        (on_page_markdown rewriting_world (ready_plugin default_config [rewriting] []) ''# Home''
           (a_page [(''ignore_macros'', PBool True)])) = Inr ''changed''
   \<and> ''changed'' \<noteq> ''# Home''"
  by (simp add: on_page_markdown_def run_defs example_defs property_defs Let_def)

section \<open>Copies\<close>

text \<open>
  Claim C3, as amended.  The variables of a page are a shallow copy of the shared
  store: a new object, whose entries are those of the store with the metadata of the
  page over them.  Making it, merging the metadata and binding a key of it at the top
  level change no object that was there before, the shared store among them.  Likewise
  the \<^verbatim>\<open>config\<close> entry of the variables is a shallow copy of the configuration of the
  host: another object with the same entries, and binding a key of it at the top level
  leaves the configuration as it was.  The nested mappings are not copied: the copy holds
  the references that the original holds.
\<close>

theorem shallow_copies:
  assumes "vars < length h"
  shows "fst (page_variables h vars meta) = length h
       \<and> length (snd (page_variables h vars meta)) = Suc (length h)
       \<and> (\<forall>a < length h. snd (page_variables h vars meta) ! a = h ! a)
       \<and> snd (page_variables h vars meta) ! length h
            = fold (\<lambda>(k, v). AList.update k v) meta (h ! vars)
       \<and> (\<forall>a < length h.
            setitem (snd (page_variables h vars meta)) (length h) key v ! a = h ! a)
       \<and> (cfg < length h \<and> cfg \<noteq> vars \<longrightarrow>
            getitem (config_copy h vars cfg) vars ''config'' = Some (ORef (length h))
            \<and> length h \<noteq> cfg
            \<and> config_copy h vars cfg ! length h = h ! cfg
            \<and> config_copy h vars cfg ! cfg = h ! cfg
            \<and> setitem (config_copy h vars cfg) (length h) key v ! cfg = h ! cfg)"
  using assms
  by (auto simp: page_variables_def config_copy_def copy_def update_object_def setitem_def
      getitem_def nth_append nth_list_update update_conv')

theorem shallow_copies_witness:
  "page_variables example_store 0 [(''title'', OStr ''Home'')] =
     (5, example_store @ [[(''extra'', ORef 1), (''title'', OStr ''Home'')]])
   \<and> setitem (snd (page_variables example_store 0 [(''title'', OStr ''Home'')])) 5
        ''extra'' ONone ! 0 = [(''extra'', ORef 1)]
   \<and> getitem (config_copy example_store 0 2) 0 ''config'' = Some (ORef 5)
   \<and> config_copy example_store 0 2 ! 5 = [(''extra'', ORef 3), (''theme'', ORef 4)]
   \<and> setitem (config_copy example_store 0 2) 5 ''theme'' ONone ! 2
       = [(''extra'', ORef 3), (''theme'', ORef 4)]"
proof -
  have valid: "0 < length example_store" "2 < length example_store \<and> (2::nat) \<noteq> 0"
    "length example_store = 5"
    "example_store ! 0 = [(''extra'', ORef 1)]"
    "example_store ! 2 = [(''extra'', ORef 3), (''theme'', ORef 4)]"
    by (simp_all add: example_store_def)
  have made: "page_variables example_store 0 [(''title'', OStr ''Home'')] =
      (5, example_store @ [[(''extra'', ORef 1), (''title'', OStr ''Home'')]])"
    by (simp add: page_variables_def copy_def update_object_def example_store_def)
  show ?thesis
    using shallow_copies [OF valid(1), of "[(''title'', OStr ''Home'')]" "''extra''" ONone 2]
      shallow_copies [OF valid(1), of "[]" "''theme''" ONone 2]
      valid made
    by simp
qed

text \<open>
  Claim C3 as the spec has it fails, for both copies.  An assignment in the nested
  mapping \<^verbatim>\<open>extra\<close> of the variables of a page is seen in the shared store, and an
  assignment in the nested mapping \<^verbatim>\<open>theme\<close> of the \<^verbatim>\<open>config\<close> entry is seen in the
  configuration of the host.
\<close>

theorem shallow_copies_counterexample:
  "getitem2 example_store 0 ''extra'' ''site_name'' = Inr (OStr ''Docs'')
   \<and> fst (page_variables example_store 0 []) = 5
   \<and> setitem2 (snd (page_variables example_store 0 [])) 5 ''extra'' ''site_name''
        (OStr ''Changed'') = Inr changed_store
   \<and> getitem2 changed_store 0 ''extra'' ''site_name'' = Inr (OStr ''Changed'')
   \<and> getitem2 example_store 2 ''theme'' ''name'' = Inr (OStr ''mkdocs'')
   \<and> getitem (config_copy example_store 0 2) 0 ''config'' = Some (ORef 5)
   \<and> setitem2 (config_copy example_store 0 2) 5 ''theme'' ''name'' (OStr ''other'')
       = Inr retitled_store
   \<and> getitem2 retitled_store 2 ''theme'' ''name'' = Inr (OStr ''other'')"
  by (simp add: getitem2_def setitem2_def getitem_def setitem_def page_variables_def
      config_copy_def copy_def update_object_def example_store_def changed_store_def
      retitled_store_def)

section \<open>The behaviour on undefined names\<close>

text \<open>
  Claim C6, as amended.  \<open>on_config\<close> is the setup: the host calls it once, and the
  build goes on to the pages only when it has succeeded.  When \<^verbatim>\<open>on_undefined\<close> is none
  of \<^verbatim>\<open>keep\<close>, \<^verbatim>\<open>silent\<close>, \<^verbatim>\<open>strict\<close> and \<^verbatim>\<open>lax\<close>, setup never succeeds and
  the build fails whatever the pages are: with the error of an earlier step of setup when
  one fails (the variables, the modules, the include directory), and with \<^verbatim>\<open>ValueError\<close>
  once these have gone through.  When it is one of the four (\<^verbatim>\<open>keep\<close> is the default)
  the check passes, and if the other steps of setup succeed, the creation of the
  environment among them, setup succeeds, the environment has the class of undefined
  values that the table gives for the name, and the build goes on with the pages.
\<close>

theorem on_undefined_checked:
  "DEFAULT_UNDEFINED_BEHAVIOR = ''keep''
   \<and> undefined_behavior ''keep'' = Inr DebugUndefined
   \<and> undefined_behavior ''silent'' = Inr Undefined
   \<and> undefined_behavior ''strict'' = Inr StrictUndefined
   \<and> undefined_behavior ''lax'' = Inr LaxUndefined
   \<and> (on_config_variables w self cfg = Inl early \<longrightarrow>
        on_config w self cfg = Inl early \<and> build w self cfg pages = Inl early)
   \<and> (on_config_variables w self cfg = Inr ready
        \<and> on_undefined (config ready) \<notin> {''keep'', ''silent'', ''strict'', ''lax''} \<longrightarrow>
        (\<forall>final. on_config w self cfg \<noteq> Inr final)
        \<and> (\<forall>result. build w self cfg pages \<noteq> Inr result)
        \<and> (include_directory w (config ready) cfg = Inl early \<longrightarrow>
             on_config w self cfg = Inl early)
        \<and> (include_directory w (config ready) cfg = Inr dir \<longrightarrow>
             on_config w self cfg = Inl ValueError
             \<and> build w self cfg pages = Inl ValueError))
   \<and> (on_config_variables w self cfg = Inr ready
        \<and> on_undefined (config ready) \<in> {''keep'', ''silent'', ''strict'', ''lax''}
        \<and> include_directory w (config ready) cfg = Inr dir
        \<and> undefined_behavior (on_undefined (config ready)) = Inr cls
        \<and> environment_error w dir cls (j2_markers (config ready)) = None
        \<and> macros ready = Inr m \<longrightarrow>
        (\<exists>final e. on_config w self cfg = Inr final \<and> env final = Some e
           \<and> undefined_cls e = cls
           \<and> build w self cfg pages =
               bindE (render_pages w pages final) (\<lambda>(outs, self).
               bindE (on_post_build w self) (\<lambda>self. Inr (outs, self)))))"
proof -
  have cfg: "config (snd (filters s)) = config s" for s
    by (simp add: filters_def split: option.splits)
  have outside: "on_config w self cfg = Inl ValueError"
    if "on_config_variables w self cfg = Inr ready"
      and "on_undefined (config ready) \<notin> {''keep'', ''silent'', ''strict'', ''lax''}"
      and "include_directory w (config ready) cfg = Inr dir"
    using that
    by (simp add: on_config_def on_config_environment_def bindE_def undefined_behavior_cases
        cfg filters_def split: option.splits)
  have nodir: "on_config w self cfg = Inl x"
    if "on_config_variables w self cfg = Inr ready"
      and "include_directory w (config ready) cfg = Inl x" for x
    using that
    by (simp add: on_config_def on_config_environment_def bindE_def cfg filters_def
        split: option.splits)
  have never: "\<exists>e. on_config w self cfg = Inl e"
    if "on_config_variables w self cfg = Inr ready"
      and "on_undefined (config ready) \<notin> {''keep'', ''silent'', ''strict'', ''lax''}"
  proof (cases "include_directory w (config ready) cfg")
    case (Inl e)
    with nodir [OF that(1)] show ?thesis by blast
  next
    case (Inr d)
    with that have "on_config w self cfg = Inl ValueError"
      by (simp add: on_config_def on_config_environment_def bindE_def undefined_behavior_cases
          cfg filters_def split: option.splits)
    then show ?thesis by blast
  qed
  have inside: "\<exists>final e. on_config w self cfg = Inr final \<and> env final = Some e
           \<and> undefined_cls e = cls
           \<and> build w self cfg pages =
               bindE (render_pages w pages final) (\<lambda>(outs, self).
               bindE (on_post_build w self) (\<lambda>self. Inr (outs, self)))"
    if ready: "on_config_variables w self cfg = Inr ready"
      and dir: "include_directory w (config ready) cfg = Inr dir"
      and cls: "undefined_behavior (on_undefined (config ready)) = Inr cls"
      and ok: "environment_error w dir cls (j2_markers (config ready)) = None"
      and m: "macros ready = Inr m"
  proof -
    obtain vars where vars: "variables ready = Inr vars"
      using on_config_variables_ready [OF ready] by blast
    let ?e = "\<lparr> loader = dir, undefined_cls = cls, markers = j2_markers (config ready),
                globals = default_globals w, env_filters = default_filters w \<rparr>"
    let ?s = "(snd (filters ready))\<lparr>env := Some ?e\<rparr>"
    have step: "on_config_environment w ready cfg = Inr ?s"
      using on_config_environment_env [OF dir cls ok] .
    have "macros ?s = Inr m" "variables ?s = Inr vars" "env ?s = Some ?e"
      using m vars by (simp_all add: property_defs filters_def split: option.splits)
    from on_config_macros_filters_env [OF this]
    obtain final e' where final: "on_config_macros_filters ?s = Inr final" "env final = Some e'"
      "undefined_cls e' = cls" by auto
    then have "on_config w self cfg = Inr final"
      using ready step by (simp add: on_config_def bindE_def)
    then show ?thesis
      using final by (simp add: build_def bindE_def)
  qed
  show ?thesis
    using outside nodir never inside on_config_first [of w self cfg] build_failed [of w self cfg]
    by (simp add: undefined_behavior_cases DEFAULT_UNDEFINED_BEHAVIOR_def) (metis sum.distinct(1))
qed

theorem on_undefined_checked_witness:
  "on_config_variables quiet_world (new_plugin default_config) [] = Inl TypeError
   \<and> build quiet_world (new_plugin default_config) [] [(''# Home'', a_page [])] = Inl TypeError
   \<and> on_config_variables quiet_world (new_plugin (default_config\<lparr>on_undefined := ''loose''\<rparr>))
        site_config = Inr (loaded_plugin (default_config\<lparr>on_undefined := ''loose''\<rparr>))
   \<and> build quiet_world (new_plugin (default_config\<lparr>on_undefined := ''loose''\<rparr>)) site_config
        [(''# Home'', a_page [])] = Inl ValueError
   \<and> on_config bare_world (new_plugin (default_config\<lparr>on_undefined := ''loose''\<rparr>)) site_config
       = Inl FileNotFoundError
   \<and> (\<exists>final e. on_config quiet_world (new_plugin default_config) site_config = Inr final
         \<and> env final = Some e \<and> undefined_cls e = DebugUndefined)
   \<and> on_config quiet_world (new_plugin default_config) site_config = Inr configured_plugin
   \<and> map_option undefined_cls (env configured_plugin) = Some DebugUndefined
   \<and> map_sum id fst
        (build quiet_world (new_plugin default_config) site_config [(''# Home'', a_page [])])
       = Inr [''# Home'']"
proof -
  let ?loose = "default_config\<lparr>on_undefined := ''loose''\<rparr>"
  let ?pages = "[(''# Home'', a_page [])]"
  have early: "on_config_variables quiet_world (new_plugin default_config) [] = Inl TypeError"
    by (simp add: on_config_variables_def YAML_VARIABLES_def bindE_def Let_def)
  have loaded: "on_config_variables quiet_world (new_plugin default_config) site_config =
      Inr (loaded_plugin default_config)"
    "on_config_variables quiet_world (new_plugin ?loose) site_config = Inr (loaded_plugin ?loose)"
    "on_config_variables bare_world (new_plugin ?loose) site_config = Inr (loaded_plugin ?loose)"
    by (simp_all add: loaded_plugin_reached small_worlds default_config_fields)
  have facts: "on_undefined (config (loaded_plugin default_config)) = ''keep''"
    "on_undefined (config (loaded_plugin ?loose)) = ''loose''"
    "include_directory quiet_world (config (loaded_plugin default_config)) site_config
       = Inr ''/site/docs''"
    "include_directory quiet_world (config (loaded_plugin ?loose)) site_config
       = Inr ''/site/docs''"
    "include_directory bare_world (config (loaded_plugin ?loose)) site_config
       = Inl FileNotFoundError"
    "undefined_behavior (on_undefined (config (loaded_plugin default_config)))
       = Inr DebugUndefined"
    "environment_error quiet_world ''/site/docs'' DebugUndefined
       (j2_markers (config (loaded_plugin default_config))) = None"
    "macros (loaded_plugin default_config) = Inr []"
    by (simp_all add: loaded_plugin_config include_directory_docs small_worlds
        default_config_fields undefined_behavior_cases jinja_sanity_def)
  have c1: "build quiet_world (new_plugin default_config) [] ?pages = Inl TypeError"
    using on_undefined_checked [where w = quiet_world and self = "new_plugin default_config"
          and cfg = "[]" and early = TypeError and pages = ?pages] early
    by (simp add: DEFAULT_UNDEFINED_BEHAVIOR_def)
  have c2: "build quiet_world (new_plugin ?loose) site_config ?pages = Inl ValueError"
    using on_undefined_checked [where w = quiet_world and self = "new_plugin ?loose"
          and cfg = site_config and ready = "loaded_plugin ?loose" and dir = "''/site/docs''"
          and pages = ?pages] loaded(2) facts(2,4)
    by (simp add: DEFAULT_UNDEFINED_BEHAVIOR_def)
  have c3: "on_config bare_world (new_plugin ?loose) site_config = Inl FileNotFoundError"
    using on_undefined_checked [where w = bare_world and self = "new_plugin ?loose"
          and cfg = site_config and ready = "loaded_plugin ?loose"
          and early = FileNotFoundError] loaded(3) facts(2,5)
    by (simp add: DEFAULT_UNDEFINED_BEHAVIOR_def)
  have c4: "\<exists>final e. on_config quiet_world (new_plugin default_config) site_config = Inr final
      \<and> env final = Some e \<and> undefined_cls e = DebugUndefined"
    using on_undefined_checked [where w = quiet_world and self = "new_plugin default_config"
          and cfg = site_config and ready = "loaded_plugin default_config"
          and dir = "''/site/docs''" and cls = DebugUndefined and m = "[]" and pages = ?pages]
      loaded(1) facts(1,3,6,7,8)
    by (auto simp: DEFAULT_UNDEFINED_BEHAVIOR_def)
  have c5: "map_sum id fst (build quiet_world (new_plugin default_config) site_config ?pages)
       = Inr [''# Home'']"
    by (simp add: build_def configured_plugin_reached configured_plugin_page on_post_build_def
        started_def configured_plugin_fields property_defs bindE_def)
  have c6: "map_option undefined_cls (env configured_plugin) = Some DebugUndefined"
    by (simp add: configured_plugin_def)
  show ?thesis
    using early loaded(2) c1 c2 c3 c4 c5 c6 configured_plugin_reached by simp
qed

text \<open>
  Claim C6 as the spec has it fails.  A name outside the four does not always give the
  error of the configuration: with no include directory setup raises
  \<^verbatim>\<open>FileNotFoundError\<close>, and with a local module that is configured and absent it
  raises \<^verbatim>\<open>ImportError\<close>, both ahead of the check.  And a name among the four does not
  make setup succeed: with the default \<^verbatim>\<open>keep\<close> and no include directory it fails.
\<close>

theorem on_undefined_checked_counterexample:
  "''loose'' \<notin> {''keep'', ''silent'', ''strict'', ''lax''}
   \<and> on_config bare_world (new_plugin (default_config\<lparr>on_undefined := ''loose''\<rparr>)) site_config
       = Inl FileNotFoundError
   \<and> on_config quiet_world
        (new_plugin (default_config\<lparr>on_undefined := ''loose'', module_name := ''custom''\<rparr>))
        site_config = Inl ImportError
   \<and> on_undefined default_config \<in> {''keep'', ''silent'', ''strict'', ''lax''}
   \<and> on_config bare_world (new_plugin default_config) site_config = Inl FileNotFoundError"
proof -
  let ?loose = "default_config\<lparr>on_undefined := ''loose''\<rparr>"
  let ?custom = "default_config\<lparr>on_undefined := ''loose'', module_name := ''custom''\<rparr>"
  have loaded: "on_config_variables bare_world (new_plugin ?loose) site_config =
      Inr (loaded_plugin ?loose)"
    "on_config_variables bare_world (new_plugin default_config) site_config =
      Inr (loaded_plugin default_config)"
    "on_config_variables quiet_world (new_plugin ?custom) site_config = Inl ImportError"
    by (simp_all add: loaded_plugin_reached small_worlds default_config_fields)
  have nodir: "on_config_environment bare_world (loaded_plugin c) site_config =
      Inl FileNotFoundError" if "include_dir c = []" for c
    using that
    by (simp add: on_config_environment_def loaded_plugin_config include_directory_docs
        small_worlds bindE_def)
  show ?thesis
    using loaded nodir [of ?loose] nodir [of default_config]
    by (simp add: on_config_def bindE_def default_config_fields)
qed

section \<open>A page whose template fails\<close>

text \<open>
  Claim C4.  When the expansion of the template raises an exception: with
  \<^verbatim>\<open>on_error_fail\<close> the process exits with status \<open>ERROR_MACRO\<close>, which is not zero;
  without it \<open>render\<close> returns the diagnostic of \<open>format_error\<close>, which is not the
  text of the page and has the description of the error and the identity of the page
  in it, and \<open>on_page_markdown\<close> goes on with the diagnostic as the text of the page.
  It goes on in the same way whether the expansion failed or succeeded: the title is
  rendered, then every function for after the macros is called, in the order of the list
  and each on the plugin as the one before left it, and the text they leave is returned.
\<close>

theorem render_failure:
  assumes "variables self = Inr vars" and "vars \<noteq> []"
    and "pre_macro_functions (started self md pg) = Inr pre"
    and "fold (\<lambda>f r. bindE r (call w f)) pre (Inr (started self md pg)) = Inr s"
    and "markdown s = Inr body"
    and "variables s = Inr pvars"
    and "meta_variables s = Inr meta" and "macro_flags meta = Inr (i, r)"
    and "\<not> skipped (render_by_default (config s)) i r"
    and "dict_update pvars meta = Inr merged" and "env s = Some e"
  shows "(template_render w e (PStr body) merged = Inl err \<and> is_Exception err
            \<and> page s = Inr p \<and> on_error_fail (config s) \<longrightarrow>
            render w s (PStr body) = Inl (SystemExit ERROR_MACRO) \<and> ERROR_MACRO \<noteq> 0
            \<and> on_page_markdown w self md pg = Inl (SystemExit ERROR_MACRO))
       \<and> (template_render w e (PStr body) merged = Inl err \<and> is_Exception err
            \<and> page s = Inr p \<and> \<not> on_error_fail (config s) \<longrightarrow>
            render w s (PStr body) = Inr (PStr (format_error w err (PStr body) p))
            \<and> format_error w err (PStr body) p \<noteq> body
            \<and> sublist (error_description w err) (format_error w err (PStr body) p)
            \<and> sublist (document_identity w p) (format_error w err (PStr body) p)
            \<and> (render_title w (s\<lparr>priv_markdown := Some (format_error w err (PStr body) p)\<rparr>)
                  = Inr titled
                \<and> post_macro_functions titled = Inr post \<longrightarrow>
                markdown titled = Inr (format_error w err (PStr body) p)
                \<and> on_page_markdown w self md pg =
                    bindE (fold (\<lambda>f r. bindE r (call w f)) post (Inr titled))
                      (\<lambda>s. bindE (markdown s) (\<lambda>m. Inr (m, s)))))
       \<and> (template_render w e (PStr body) merged = Inr out
            \<and> render_title w (s\<lparr>priv_markdown := Some out\<rparr>) = Inr titled
            \<and> post_macro_functions titled = Inr post \<longrightarrow>
            render w s (PStr body) = Inr (PStr out)
            \<and> markdown titled = Inr out
            \<and> on_page_markdown w self md pg =
                bindE (fold (\<lambda>f r. bindE r (call w f)) post (Inr titled))
                  (\<lambda>s. bindE (markdown s) (\<lambda>m. Inr (m, s))))"
proof -
  have pre: "for_each (call w) pre (started self md pg) = Inr s"
    using assms(4) by (simp add: for_each_fold)
  have decided: "render w s (PStr body) = expand w s (PStr body) pvars meta"
    using render_decided [OF assms(6-8), of w "PStr body"] assms(9) by simp
  have whole: "on_page_markdown w self md pg =
      bindE (render w s (PStr body)) (\<lambda>rendered.
      bindE (set_markdown s rendered) (\<lambda>s.
      bindE (render_title w s) (\<lambda>s.
      bindE (post_macro_functions s) (\<lambda>funcs.
      bindE (for_each (call w) funcs s) (\<lambda>s.
      bindE (markdown s) (\<lambda>m. Inr (m, s)))))))"
    by (rule on_page_markdown_started [OF assms(1-3) pre assms(5)])
  have continues: "markdown titled = Inr out
      \<and> on_page_markdown w self md pg =
          bindE (fold (\<lambda>f r. bindE r (call w f)) post (Inr titled))
            (\<lambda>s. bindE (markdown s) (\<lambda>m. Inr (m, s)))"
    if "render w s (PStr body) = Inr (PStr out)"
      and "render_title w (s\<lparr>priv_markdown := Some out\<rparr>) = Inr titled"
      and "post_macro_functions titled = Inr post" for out
    using whole that assms(5) render_title_markdown [OF that(2)]
    by (simp add: bindE_def for_each_fold property_defs)
  have raised: "render w s (PStr body) =
      (if on_error_fail (config s) then Inl (SystemExit ERROR_MACRO)
       else Inr (PStr (format_error w err (PStr body) p)))"
    if "template_render w e (PStr body) merged = Inl err" "is_Exception err" "page s = Inr p"
    using decided expand_raised [OF assms(10,11) that] by simp
  have rendered: "render w s (PStr body) = Inr (PStr out)"
    if "template_render w e (PStr body) merged = Inr out"
    using decided expand_rendered [OF assms(10,11) that] by simp
  have exits: "on_page_markdown w self md pg = Inl (SystemExit ERROR_MACRO)"
    if "render w s (PStr body) = Inl (SystemExit ERROR_MACRO)"
    using whole that by (simp add: bindE_def)
  show ?thesis
    using raised rendered exits continues
      format_error_parts(1-3) [where w = w and err = err and p = p]
    by (simp add: ERROR_MACRO_def)
qed

theorem render_failure_witness:
  "render marking_world
     (started (ready_plugin default_config [] [h1, h2]) ''# {{ x }}'' (a_page []))
     (PStr ''# {{ x }}'') =
     Inr (PStr ''Macro Rendering Error; file: index.md; error: UndefinedError; text: # {{ x }}'')
   \<and> map_sum id fst
        (on_page_markdown marking_world (ready_plugin default_config [] [h1, h2])
           ''# {{ x }}'' (a_page [])) =
       Inr ''Macro Rendering Error; file: index.md; error: UndefinedError; text: # {{ x }} +h1 +h2''
   \<and> render marking_world
        (started (ready_plugin (default_config\<lparr>on_error_fail := True\<rparr>) [] [h1, h2])
           ''# {{ x }}'' (a_page []))
        (PStr ''# {{ x }}'') = Inl (SystemExit 100)
   \<and> on_page_markdown marking_world
        (ready_plugin (default_config\<lparr>on_error_fail := True\<rparr>) [] [h1, h2])
        ''# {{ x }}'' (a_page []) = Inl (SystemExit 100)
   \<and> map_sum id fst
        (on_page_markdown (quiet_world\<lparr>call := marking\<rparr>)
           (ready_plugin default_config [] [h1, h2]) ''# {{ x }}'' (a_page []))
       = Inr ''# {{ x }} +h1 +h2''"
proof -
  let ?vars = "[(''extra'', PDict [(''site_name'', PStr ''Docs'')]), (''site_name'', PStr ''Docs'')]"
  let ?pvars = "?vars @ [(''page'', a_page [])]"
  let ?e = "\<lparr> loader = ''/site/docs'', undefined_cls = DebugUndefined, markers = [],
              globals = [], env_filters = [] \<rparr>"
  let ?diag = "''Macro Rendering Error; file: index.md; error: UndefinedError; text: # {{ x }}''"
  let ?title = "''Macro Rendering Error; file: index.md; error: UndefinedError; text: Home''"
  let ?err = "OtherException ''UndefinedError''"
  let ?passing = "quiet_world\<lparr>call := marking\<rparr>"
  have common: "variables (ready_plugin c [] [h1, h2]) = Inr ?vars" "?vars \<noteq> []"
    "pre_macro_functions (started (ready_plugin c [] [h1, h2]) ''# {{ x }}'' (a_page [])) = Inr []"
    "fold (\<lambda>f r. bindE r (call w f)) []
       (Inr (started (ready_plugin c [] [h1, h2]) ''# {{ x }}'' (a_page [])))
       = Inr (started (ready_plugin c [] [h1, h2]) ''# {{ x }}'' (a_page []))"
    "markdown (started (ready_plugin c [] [h1, h2]) ''# {{ x }}'' (a_page [])) = Inr ''# {{ x }}''"
    "variables (started (ready_plugin c [] [h1, h2]) ''# {{ x }}'' (a_page [])) = Inr ?pvars"
    "meta_variables (started (ready_plugin c [] [h1, h2]) ''# {{ x }}'' (a_page []))
       = Inr (PDict [])"
    "macro_flags (PDict []) = Inr (PNone, PNone)"
    "dict_update ?pvars (PDict []) = Inr ?pvars"
    "env (started (ready_plugin c [] [h1, h2]) ''# {{ x }}'' (a_page [])) = Some ?e"
    "page (started (ready_plugin c [] [h1, h2]) ''# {{ x }}'' (a_page [])) = Inr (a_page [])"
    for c w
    by (simp_all add: run_defs example_defs property_defs)
  have rendering:
    "\<not> skipped (render_by_default (config (started (ready_plugin default_config [] [h1, h2])
         ''# {{ x }}'' (a_page [])))) PNone PNone"
    "\<not> skipped (render_by_default (config (started
         (ready_plugin (default_config\<lparr>on_error_fail := True\<rparr>) [] [h1, h2])
         ''# {{ x }}'' (a_page [])))) PNone PNone"
    "\<not> on_error_fail (config (started (ready_plugin default_config [] [h1, h2])
         ''# {{ x }}'' (a_page [])))"
    "on_error_fail (config (started
         (ready_plugin (default_config\<lparr>on_error_fail := True\<rparr>) [] [h1, h2])
         ''# {{ x }}'' (a_page [])))"
    by (simp_all add: run_defs example_defs)
  have engine: "template_render marking_world ?e (PStr ''# {{ x }}'') ?pvars = Inl ?err"
    "is_Exception ?err"
    "template_render ?passing ?e (PStr ''# {{ x }}'') ?pvars = Inr ''# {{ x }}''"
    by (simp_all add: example_defs marking_world_def)
  let ?s = "started (ready_plugin default_config [] [h1, h2]) ''# {{ x }}'' (a_page [])"
  let ?failed = "?s\<lparr>priv_markdown := Some ?diag,
      priv_page := Some (PObj [(''title'', PStr ?title), (''meta'', PDict []),
                               (''src_path'', PStr ''index.md'')])\<rparr>"
  have failed: "format_error marking_world ?err (PStr ''# {{ x }}'') (a_page []) = ?diag"
    "render_title marking_world (?s\<lparr>priv_markdown := Some ?diag\<rparr>) = Inr ?failed"
    "post_macro_functions ?failed = Inr [h1, h2]"
    "fold (\<lambda>f r. bindE r (call marking_world f)) [h1, h2] (Inr ?failed) =
       Inr (?failed\<lparr>priv_markdown := Some (?diag @ '' +h1 +h2'')\<rparr>)"
    by (simp_all add: run_defs example_defs property_defs marking_world_def marking_def
        h1_def h2_def)
  have passed: "render_title ?passing (?s\<lparr>priv_markdown := Some ''# {{ x }}''\<rparr>) = Inr ?s"
    "post_macro_functions ?s = Inr [h1, h2]"
    "fold (\<lambda>f r. bindE r (call ?passing f)) [h1, h2] (Inr ?s) =
       Inr (?s\<lparr>priv_markdown := Some ''# {{ x }} +h1 +h2''\<rparr>)"
    by (simp_all add: run_defs example_defs property_defs marking_def h1_def h2_def)
  have a: "render marking_world ?s (PStr ''# {{ x }}'') = Inr (PStr ?diag)
      \<and> map_sum id fst (on_page_markdown marking_world (ready_plugin default_config [] [h1, h2])
            ''# {{ x }}'' (a_page [])) = Inr (?diag @ '' +h1 +h2'')"
    using render_failure [where w = marking_world and err = "?err" and p = "a_page []"
          and titled = "?failed" and post = "[h1, h2]",
        OF common(1-8) rendering(1) common(9,10)]
      common(11) rendering(3) engine(1,2) failed
    by (simp add: bindE_def property_defs)
  have b: "render marking_world
        (started (ready_plugin (default_config\<lparr>on_error_fail := True\<rparr>) [] [h1, h2])
           ''# {{ x }}'' (a_page [])) (PStr ''# {{ x }}'') = Inl (SystemExit 100)
      \<and> on_page_markdown marking_world
        (ready_plugin (default_config\<lparr>on_error_fail := True\<rparr>) [] [h1, h2])
        ''# {{ x }}'' (a_page []) = Inl (SystemExit 100)"
    using render_failure [where w = marking_world and err = "?err" and p = "a_page []",
        OF common(1-8) rendering(2) common(9,10)]
      common(11) rendering(4) engine(1,2)
    by (simp add: ERROR_MACRO_def)
  have c: "map_sum id fst (on_page_markdown ?passing (ready_plugin default_config [] [h1, h2])
        ''# {{ x }}'' (a_page [])) = Inr ''# {{ x }} +h1 +h2''"
    using render_failure [where w = ?passing and titled = "?s" and post = "[h1, h2]"
          and out = "''# {{ x }}''",
        OF common(1-8) rendering(1) common(9,10)]
      engine(3) passed
    by (simp add: bindE_def property_defs)
  show ?thesis using a b c by simp
qed

end
